theory Spec2Isabelle
  imports Complex_Main
begin

section \<open>JavaScript values\<close>

text \<open>
  The library is TypeScript that runs as JavaScript. Its records are plain objects built
  with object spread, so an object is modelled as a finite map from property names to
  values: \<open>None\<close> is an absent property, \<open>Some JUndefined\<close> a property that is present
  and holds \<open>undefined\<close>. The order of the properties plays no role below. Strings are
  lists of code units below 256. A number is a double: \<open>Finite q\<close> is the double of
  value \<open>q\<close> (negative zero is identified with zero), and there are the three special
  values; the library never computes with numbers, it only stores and tests them.
  \<open>JRef\<close> is a reference to a slide object in the store.

  The property objects of the element builders, of \<open>addYouTube\<close> and the quiz data are
  kept as such objects, since the code spreads them. The parameter objects of \<open>addCsv\<close>
  and \<open>setBorder\<close>, whose fields the code reads one by one, are records at their
  declared types, with \<open>None\<close> for an optional field that is not given.
\<close>

datatype jsnum = Finite rat | PosInfinity | NegInfinity | NaN

datatype jsval =
    JUndefined
  | JBool bool
  | JNum jsnum
  | JStr string
  | JArr "jsval list"
  | JObj "string \<Rightarrow> jsval option"
  | JRef nat

type_synonym obj = "string \<Rightarrow> jsval option"

text \<open>Property read \<open>o.k\<close>: an absent property reads as \<open>undefined\<close>.\<close>

definition get :: "obj \<Rightarrow> string \<Rightarrow> jsval" where
  "get ob k = (case ob k of None \<Rightarrow> JUndefined | Some v \<Rightarrow> v)"

text \<open>Truthiness, as tested by \<open>if (v)\<close>, \<open>!v\<close> and \<open>v || d\<close>.\<close>

fun truthy :: "jsval \<Rightarrow> bool" where
  "truthy JUndefined = False"
| "truthy (JBool b) = b"
| "truthy (JNum n) = (n \<noteq> Finite 0 \<and> n \<noteq> NaN)"
| "truthy (JStr s) = (s \<noteq> [])"
| "truthy (JArr xs) = True"
| "truthy (JObj ob) = True"
| "truthy (JRef a) = True"

text \<open>\<open>a || b\<close>\<close>

definition js_or :: "jsval \<Rightarrow> jsval \<Rightarrow> jsval" where
  "js_or a b = (if truthy a then a else b)"

text \<open>An optional string property of a typed parameter object, as a value.\<close>

definition optStr :: "string option \<Rightarrow> jsval" where
  "optStr x = (case x of None \<Rightarrow> JUndefined | Some s \<Rightarrow> JStr s)"

section \<open>The run: clock, random source, console, slide objects, the presentation\<close>

text \<open>
  \<open>clock w k\<close> is what the \<open>k\<close>-th call of \<open>Date.now()\<close> returns and \<open>random w k\<close> is the
  text \<open>Math.random().toString(36)\<close> of the \<open>k\<close>-th draw; \<open>reads\<close> counts the calls of
  \<open>generateId\<close> so far. \<open>console\<close> collects the messages of \<open>console.warn\<close>.
  \<open>slides\<close> is the store of the \<open>PresentationSlide\<close> objects held by \<open>Slide\<close> instances
  (a \<open>Slide\<close> is the address of its object; \<open>nslides\<close> is the next free address).
  \<open>mediaQueue\<close> and \<open>sources\<close> are the two arrays of the \<open>Presentation\<close>.
\<close>

record world =
  mediaQueue :: "obj list"
  sources :: "obj list"
  slides :: "nat \<Rightarrow> obj"
  nslides :: nat
  console :: "string list"
  clock :: "nat \<Rightarrow> nat"
  random :: "nat \<Rightarrow> string"
  reads :: nat

subsection \<open>generateId\<close>

definition digit36 :: "nat \<Rightarrow> char" where
  "digit36 d = ''0123456789abcdefghijklmnopqrstuvwxyz'' ! d"

text \<open>\<open>n.toString(36)\<close> for a non-negative integer \<open>n\<close>.\<close>

fun toString36 :: "nat \<Rightarrow> string" where
  "toString36 n =
     (if n < 36 then [digit36 n] else toString36 (n div 36) @ [digit36 (n mod 36)])"

declare toString36.simps [simp del]

text \<open>\<open>s.substr(start, len)\<close> for non-negative arguments.\<close>

definition substr :: "nat \<Rightarrow> nat \<Rightarrow> string \<Rightarrow> string" where
  "substr start len s = take len (drop start s)"

definition generateId :: "world \<Rightarrow> string \<times> world" where
  "generateId w =
     (toString36 (clock w (reads w)) @ ''-'' @ substr 2 9 (random w (reads w)),
      w\<lparr>reads := Suc (reads w)\<rparr>)"

subsection \<open>Presentation.addMediaItem\<close>

definition addMediaItem :: "obj \<Rightarrow> world \<Rightarrow> world" where
  "addMediaItem item w =
     (let (newId, w1) = generateId w
      in w1\<lparr>mediaQueue := mediaQueue w1 @
              [item(''id'' \<mapsto> JStr newId,
                    ''transition'' \<mapsto> js_or (get item ''transition'') (JStr ''fade''))]\<rparr>)"

section \<open>String helpers of the CSV derivation\<close>

text \<open>White space and line terminators removed by \<open>String.prototype.trim\<close>.\<close>

definition isWhiteSpace :: "char \<Rightarrow> bool" where
  "isWhiteSpace c = (of_char c \<in> {9, 10, 11, 12, 13, 32, 160 :: nat})"

definition trim :: "string \<Rightarrow> string" where
  "trim s = rev (dropWhile isWhiteSpace (rev (dropWhile isWhiteSpace s)))"

text \<open>\<open>s.split(sep)\<close> for a one-character separator: never the empty array.\<close>

fun split :: "char \<Rightarrow> string \<Rightarrow> string list" where
  "split sep [] = [[]]"
| "split sep (c # cs) =
     (if c = sep then [] # split sep cs
      else (case split sep cs of [] \<Rightarrow> [[c]] | l # ls \<Rightarrow> (c # l) # ls))"

text \<open>\<open>xs.join(sep)\<close> on an array of strings.\<close>

fun join :: "string \<Rightarrow> string list \<Rightarrow> string" where
  "join sep [] = []"
| "join sep [x] = x"
| "join sep (x # y # ys) = x @ sep @ join sep (y # ys)"

subsection \<open>Number(string)\<close>

text \<open>
  The string-to-number conversion of the language: the argument is trimmed; the empty
  string is 0; a decimal literal may carry a sign, a fraction and an exponent;
  \<open>Infinity\<close> may carry a sign; hexadecimal, octal and binary literals carry none;
  anything else is \<open>NaN\<close>. The value a literal denotes is rounded to the nearest
  double, ties to the even significand: \<open>roundRatio p d\<close> is the double nearest to
  \<open>p / d\<close>, which is \<open>Infinity\<close> from \<open>2 ^ 1024\<close> on and has the spacing \<open>2 ^ -1074\<close> at
  the bottom of the range. This is the correctly rounded conversion, which the
  engines implement for literals of any length.
\<close>

definition isDigit :: "char \<Rightarrow> bool" where
  "isDigit c = (48 \<le> (of_char c :: nat) \<and> (of_char c :: nat) \<le> 57)"

definition digitsVal :: "string \<Rightarrow> nat" where
  "digitsVal s = foldl (\<lambda>a c. 10 * a + (of_char c - 48)) 0 s"

definition decimalDigits :: "string \<Rightarrow> int option" where
  "decimalDigits s = (if s \<noteq> [] \<and> list_all isDigit s then Some (int (digitsVal s)) else None)"

definition signedInteger :: "string \<Rightarrow> int option" where
  "signedInteger s =
     (case s of
        [] \<Rightarrow> None
      | c # r \<Rightarrow>
          if c = CHR ''+'' then decimalDigits r
          else if c = CHR ''-'' then map_option uminus (decimalDigits r)
          else decimalDigits s)"

definition exponentPart :: "string \<Rightarrow> int option" where
  "exponentPart s =
     (case s of
        [] \<Rightarrow> Some 0
      | c # r \<Rightarrow> if c = CHR ''e'' \<or> c = CHR ''E'' then signedInteger r else None)"

text \<open>The number of binary digits of \<open>n\<close>.\<close>

fun bitLength :: "nat \<Rightarrow> nat" where
  "bitLength n = (if n = 0 then 0 else Suc (bitLength (n div 2)))"

declare bitLength.simps [simp del]

definition pow2 :: "int \<Rightarrow> rat" where
  "pow2 e = (if 0 \<le> e then 2 ^ nat e else 1 / 2 ^ nat (- e))"

text \<open>
  For \<open>p / d\<close> between \<open>2 ^ e\<close> and \<open>2 ^ (e + 1)\<close> the doubles are the multiples of
  \<open>2 ^ (e - 52)\<close>, and of \<open>2 ^ -1074\<close> below \<open>2 ^ -1022\<close>: \<open>n\<close> is the nearest multiple,
  the even one at a tie.
\<close>

definition roundRatio :: "nat \<Rightarrow> nat \<Rightarrow> jsnum" where
  "roundRatio p d =
     (if p = 0 then Finite 0
      else
        let e0 = int (bitLength p) - int (bitLength d);
            e = (if d * 2 ^ nat e0 \<le> p * 2 ^ nat (- e0) then e0 else e0 - 1);
            q = max e (- 1022) - 52;
            num = p * 2 ^ nat (- q);
            den = d * 2 ^ nat q;
            f = num div den;
            rest = num mod den;
            n = (if 2 * rest < den then f
                 else if den < 2 * rest then f + 1
                 else if even f then f else f + 1)
        in if 2 ^ 1024 \<le> n * 2 ^ nat q then PosInfinity else Finite (of_nat n * pow2 q))"

text \<open>The double nearest to \<open>m * 10 ^ k\<close>.\<close>

definition roundDecimal :: "nat \<Rightarrow> int \<Rightarrow> jsnum" where
  "roundDecimal m k =
     (if 0 \<le> k then roundRatio (m * 10 ^ nat k) 1 else roundRatio m (10 ^ nat (- k)))"

definition strUnsignedDecimalLiteral :: "string \<Rightarrow> jsnum" where
  "strUnsignedDecimalLiteral s =
     (if s = ''Infinity'' then PosInfinity
      else
        let ip = takeWhile isDigit s;
            r1 = dropWhile isDigit s;
            fp = (case r1 of [] \<Rightarrow> []
                  | c # r \<Rightarrow> if c = CHR ''.'' then takeWhile isDigit r else []);
            r2 = (case r1 of [] \<Rightarrow> []
                  | c # r \<Rightarrow> if c = CHR ''.'' then dropWhile isDigit r else r1)
        in if ip = [] \<and> fp = [] then NaN
           else (case exponentPart r2 of
                   None \<Rightarrow> NaN
                 | Some e \<Rightarrow> roundDecimal (digitsVal (ip @ fp)) (e - int (length fp))))"

definition negate :: "jsnum \<Rightarrow> jsnum" where
  "negate n = (case n of Finite q \<Rightarrow> Finite (- q) | PosInfinity \<Rightarrow> NegInfinity
               | NegInfinity \<Rightarrow> PosInfinity | NaN \<Rightarrow> NaN)"

definition strDecimalLiteral :: "string \<Rightarrow> jsnum" where
  "strDecimalLiteral s =
     (case s of
        [] \<Rightarrow> NaN
      | c # r \<Rightarrow>
          if c = CHR ''+'' then strUnsignedDecimalLiteral r
          else if c = CHR ''-'' then negate (strUnsignedDecimalLiteral r)
          else strUnsignedDecimalLiteral s)"

definition radixDigit :: "char \<Rightarrow> nat option" where
  "radixDigit c =
     (let n = (of_char c :: nat)
      in if 48 \<le> n \<and> n \<le> 57 then Some (n - 48)
         else if 97 \<le> n \<and> n \<le> 102 then Some (n - 87)
         else if 65 \<le> n \<and> n \<le> 70 then Some (n - 55)
         else None)"

definition radixDigits :: "nat \<Rightarrow> string \<Rightarrow> jsnum" where
  "radixDigits b s =
     (if s \<noteq> [] \<and> list_all (\<lambda>c. case radixDigit c of None \<Rightarrow> False | Some d \<Rightarrow> d < b) s
      then roundRatio (foldl (\<lambda>a c. b * a + the (radixDigit c)) 0 s) 1
      else NaN)"

definition nonDecimalIntegerLiteral :: "string \<Rightarrow> jsnum option" where
  "nonDecimalIntegerLiteral s =
     (case s of
        c0 # c1 # r \<Rightarrow>
          if c0 = CHR ''0'' \<and> (c1 = CHR ''x'' \<or> c1 = CHR ''X'') then Some (radixDigits 16 r)
          else if c0 = CHR ''0'' \<and> (c1 = CHR ''o'' \<or> c1 = CHR ''O'') then Some (radixDigits 8 r)
          else if c0 = CHR ''0'' \<and> (c1 = CHR ''b'' \<or> c1 = CHR ''B'') then Some (radixDigits 2 r)
          else None
      | _ \<Rightarrow> None)"

definition Number :: "string \<Rightarrow> jsnum" where
  "Number s =
     (let t = trim s
      in if t = [] then Finite 0
         else (case nonDecimalIntegerLiteral t of
                 Some n \<Rightarrow> n
               | None \<Rightarrow> strDecimalLiteral t))"

definition isNaN :: "jsnum \<Rightarrow> bool" where
  "isNaN n = (n = NaN)"

section \<open>Presentation.addCsv\<close>

text \<open>A cell of a caller-supplied or derived row: \<open>string | number\<close>.\<close>

datatype cell = CNum jsnum | CStr string

fun cellVal :: "cell \<Rightarrow> jsval" where
  "cellVal (CNum n) = JNum n"
| "cellVal (CStr s) = JStr s"

definition rowsVal :: "cell list list \<Rightarrow> jsval" where
  "rowsVal rs = JArr (map (\<lambda>r. JArr (map cellVal r)) rs)"

definition headersVal :: "string list \<Rightarrow> jsval" where
  "headersVal hs = JArr (map JStr hs)"

text \<open>The parameter object of \<open>addCsv\<close>, at its declared type.\<close>

record csvData =
  csv_name :: string
  csv_content :: "string option"
  csv_headers :: "string list option"
  csv_rows :: "cell list list option"
  csv_notes :: "string option"
  csv_transition :: "string option"

text \<open>
  The text of a cell inside \<open>row.join(',')\<close>. The text of a number is taken from
  \<open>numToString\<close>, the number-to-string conversion of the language, which is a parameter
  of the model.
\<close>

fun cellText :: "(jsnum \<Rightarrow> string) \<Rightarrow> cell \<Rightarrow> string" where
  "cellText numToString (CNum n) = numToString n"
| "cellText numToString (CStr s) = s"

definition csvWarning :: string where
  "csvWarning = ''CSV item requires either content (raw string) or rows/headers.''"

definition csvItem :: "csvData \<Rightarrow> string list \<Rightarrow> cell list list \<Rightarrow> string \<Rightarrow> obj" where
  "csvItem d headers rows content =
     [''type'' \<mapsto> JStr ''csv'',
      ''name'' \<mapsto> JStr (csv_name d),
      ''headers'' \<mapsto> headersVal headers,
      ''rows'' \<mapsto> rowsVal rows,
      ''content'' \<mapsto> JStr content,
      ''notes'' \<mapsto> optStr (csv_notes d),
      ''transition'' \<mapsto> optStr (csv_transition d)]"

definition coerceCell :: "string \<Rightarrow> cell" where
  "coerceCell c =
     (let trimmed = trim c
      in if isNaN (Number trimmed) then CStr trimmed else CNum (Number trimmed))"

definition addCsv :: "(jsnum \<Rightarrow> string) \<Rightarrow> csvData \<Rightarrow> world \<Rightarrow> world" where
  "addCsv numToString d w =
     (if \<not> truthy (optStr (csv_content d)) \<and> csv_rows d = None
      then w\<lparr>console := console w @ [csvWarning]\<rparr>
      else
        let headers0 = (case csv_headers d of None \<Rightarrow> [] | Some h \<Rightarrow> h);
            rows0 = (case csv_rows d of None \<Rightarrow> [] | Some r \<Rightarrow> r);
            content0 = (case csv_content d of None \<Rightarrow> [] | Some c \<Rightarrow> c)
        in if content0 \<noteq> [] \<and> (csv_headers d = None \<or> csv_rows d = None) then
             let lines = filter (\<lambda>line. trim line \<noteq> []) (split (CHR 0x0A) content0);
                 headers = (case lines of [] \<Rightarrow> [] | l # _ \<Rightarrow> map trim (split CHR '','' l));
                 rows = map (\<lambda>line. map coerceCell (split CHR '','' line)) (drop 1 lines)
             in addMediaItem (csvItem d headers rows content0) w
           else if 0 < length rows0 \<and> content0 = [] then
             let content = join [CHR 0x0A]
                   (join '','' headers0 # map (\<lambda>row. join '','' (map (cellText numToString) row)) rows0)
             in addMediaItem (csvItem d headers0 rows0 content) w
           else addMediaItem (csvItem d headers0 rows0 content0) w)"

section \<open>Presentation.addYouTube\<close>

text \<open>
  The regular expression of \<open>getYouTubeEmbedUrl\<close>,
  \<^verbatim>\<open>(?:https?:\/\/)?(?:www\.)?(?:youtube\.com\/(?:watch\?v=|embed\/|v\/)|youtu\.be\/)([a-zA-Z0-9_-]{11})\<close>,
  as a backtracking matcher: every piece takes the matcher of what follows it and the
  rest of the input, and yields the text of the capture group; an alternative or an
  optional piece tries its first choice and falls back to the next one.
\<close>

fun stripPrefix :: "string \<Rightarrow> string \<Rightarrow> string option" where
  "stripPrefix [] s = Some s"
| "stripPrefix (p # ps) [] = None"
| "stripPrefix (p # ps) (c # cs) = (if p = c then stripPrefix ps cs else None)"

definition orElse :: "'a option \<Rightarrow> 'a option \<Rightarrow> 'a option" where
  "orElse a b = (case a of None \<Rightarrow> b | Some x \<Rightarrow> Some x)"

definition lit :: "string \<Rightarrow> (string \<Rightarrow> string option) \<Rightarrow> string \<Rightarrow> string option" where
  "lit p k s = (case stripPrefix p s of None \<Rightarrow> None | Some r \<Rightarrow> k r)"

definition isIdChar :: "char \<Rightarrow> bool" where
  "isIdChar c =
     (let n = (of_char c :: nat)
      in (97 \<le> n \<and> n \<le> 122) \<or> (65 \<le> n \<and> n \<le> 90) \<or> (48 \<le> n \<and> n \<le> 57)
         \<or> c = CHR ''_'' \<or> c = CHR ''-'')"

text \<open>The capture group \<^verbatim>\<open>([a-zA-Z0-9_-]{11})\<close>, which ends the expression.\<close>

definition videoId :: "string \<Rightarrow> string option" where
  "videoId s = (if 11 \<le> length s \<and> list_all isIdChar (take 11 s) then Some (take 11 s) else None)"

definition hostPath :: "string \<Rightarrow> string option" where
  "hostPath s =
     orElse
       (lit ''youtube.com/''
          (\<lambda>r. orElse (lit ''watch?v='' videoId r)
                 (orElse (lit ''embed/'' videoId r) (lit ''v/'' videoId r))) s)
       (lit ''youtu.be/'' videoId s)"

definition www :: "string \<Rightarrow> string option" where
  "www s = orElse (lit ''www.'' hostPath s) (hostPath s)"

definition matchHere :: "string \<Rightarrow> string option" where
  "matchHere s =
     orElse
       (lit ''http'' (\<lambda>r. orElse (lit ''s'' (lit ''://'' www) r) (lit ''://'' www r)) s)
       (www s)"

text \<open>\<open>url.match(youtubeRegex)[1]\<close>: the first start position that matches wins.\<close>

fun regexMatch :: "string \<Rightarrow> string option" where
  "regexMatch [] = matchHere []"
| "regexMatch (c # cs) = orElse (matchHere (c # cs)) (regexMatch cs)"

definition getYouTubeEmbedUrl :: "string \<Rightarrow> string option" where
  "getYouTubeEmbedUrl url =
     (case regexMatch url of
        None \<Rightarrow> None
      | Some m1 \<Rightarrow> if m1 \<noteq> [] then Some (''https://www.youtube-nocookie.com/embed/'' @ m1) else None)"

text \<open>
  \<open>addYouTube\<close> reads \<open>props.url\<close> and spreads \<open>props\<close> itself into the item, after
  \<open>type\<close> and \<open>embedUrl\<close>; \<open>props\<close> is kept as the caller's object. \<open>url.match\<close> exists
  on strings only: with any other \<open>url\<close> the call throws.
\<close>

datatype error = TypeError

definition youtubeWarning :: "string \<Rightarrow> string" where
  "youtubeWarning url = ''Invalid YouTube URL provided, skipping: '' @ url"

definition addYouTube :: "obj \<Rightarrow> world \<Rightarrow> error + world" where
  "addYouTube props w =
     (case get props ''url'' of
        JStr url \<Rightarrow>
          (case getYouTubeEmbedUrl url of
             Some embedUrl \<Rightarrow>
               if embedUrl \<noteq> [] then
                 Inr (addMediaItem
                        ([''type'' \<mapsto> JStr ''youtube'', ''embedUrl'' \<mapsto> JStr embedUrl] ++ props) w)
               else Inr (w\<lparr>console := console w @ [youtubeWarning url]\<rparr>)
           | None \<Rightarrow> Inr (w\<lparr>console := console w @ [youtubeWarning url]\<rparr>))
      | _ \<Rightarrow> Inl TypeError)"

section \<open>Slide\<close>

text \<open>
  A \<open>Slide\<close> instance is the address of its \<open>PresentationSlide\<close> object in the store
  \<open>slides\<close>; its methods update that object in place. The \<open>elements\<close> array is kept
  inside the object, since it is reached only through it.
\<close>

definition num :: "rat \<Rightarrow> jsval" where
  "num q = JNum (Finite q)"

definition newSlide :: "string \<Rightarrow> string option \<Rightarrow> world \<Rightarrow> nat \<times> world" where
  "newSlide title backgroundColor w =
     (let (newId, w1) = generateId w;
          a = nslides w1
      in (a, w1\<lparr>slides := (slides w1)(a :=
                  [''id'' \<mapsto> JStr newId,
                   ''title'' \<mapsto> JStr title,
                   ''backgroundColor'' \<mapsto>
                      JStr (case backgroundColor of None \<Rightarrow> ''#FFFFFF'' | Some c \<Rightarrow> c),
                   ''elements'' \<mapsto> JArr [],
                   ''borderStyle'' \<mapsto> JStr ''none'']),
                nslides := Suc a\<rparr>))"

definition elementsOf :: "obj \<Rightarrow> jsval list" where
  "elementsOf ob = (case get ob ''elements'' of JArr es \<Rightarrow> es | _ \<Rightarrow> [])"

definition addElement :: "obj \<Rightarrow> nat \<Rightarrow> world \<Rightarrow> world" where
  "addElement element a w =
     w\<lparr>slides := (slides w)(a :=
          (slides w a)(''elements'' \<mapsto> JArr (elementsOf (slides w a) @ [JObj element])))\<rparr>"

definition addText :: "obj \<Rightarrow> nat \<Rightarrow> world \<Rightarrow> world" where
  "addText props a w =
     (let defaults =
            [''content'' \<mapsto> JStr ''New Text'',
             ''x'' \<mapsto> num 10, ''y'' \<mapsto> num 10, ''width'' \<mapsto> num 300, ''height'' \<mapsto> num 50,
             ''fontSize'' \<mapsto> num 24, ''color'' \<mapsto> JStr ''#000000'',
             ''fontFamily'' \<mapsto> JStr ''Alegreya'', ''animation'' \<mapsto> JStr ''none''];
          (newId, w1) = generateId w
      in addElement ((defaults ++ props)(''id'' \<mapsto> JStr newId, ''type'' \<mapsto> JStr ''text'')) a w1)"

definition addImage :: "obj \<Rightarrow> nat \<Rightarrow> world \<Rightarrow> world" where
  "addImage props a w =
     (let defaults =
            [''src'' \<mapsto> JStr ''https://placehold.co/300x200.png'',
             ''x'' \<mapsto> num 10, ''y'' \<mapsto> num 10, ''width'' \<mapsto> num 300, ''height'' \<mapsto> num 200];
          (newId, w1) = generateId w
      in addElement ((defaults ++ props)(''id'' \<mapsto> JStr newId, ''type'' \<mapsto> JStr ''image'')) a w1)"

text \<open>A destructuring default \<open>{ k = d }\<close> applies when the property reads as \<open>undefined\<close>.\<close>

definition orDefault :: "jsval \<Rightarrow> jsval \<Rightarrow> jsval" where
  "orDefault v d = (if v = JUndefined then d else v)"

definition addSticker :: "obj \<Rightarrow> nat \<Rightarrow> world \<Rightarrow> world" where
  "addSticker props a w =
     (let content = get props ''content'';
          x = get props ''x'';
          y = get props ''y'';
          size = orDefault (get props ''size'') (num 100);
          rotation = orDefault (get props ''rotation'') (num 0);
          (newId, w1) = generateId w;
          newElement =
            [''id'' \<mapsto> JStr newId, ''type'' \<mapsto> JStr ''sticker'', ''content'' \<mapsto> content,
             ''x'' \<mapsto> x, ''y'' \<mapsto> y, ''width'' \<mapsto> size, ''height'' \<mapsto> size,
             ''fontSize'' \<mapsto> size,
             ''rotation'' \<mapsto> rotation]
      in addElement newElement a w1)"

definition addMath :: "obj \<Rightarrow> nat \<Rightarrow> world \<Rightarrow> world" where
  "addMath props a w =
     (let defaults =
            [''content'' \<mapsto> JStr ''E = mc^2'',
             ''x'' \<mapsto> num 10, ''y'' \<mapsto> num 10, ''width'' \<mapsto> num 200, ''height'' \<mapsto> num 60,
             ''fontSize'' \<mapsto> num 24, ''color'' \<mapsto> JStr ''#000000''];
          (newId, w1) = generateId w
      in addElement ((defaults ++ props)(''id'' \<mapsto> JStr newId, ''type'' \<mapsto> JStr ''math'')) a w1)"

definition addShape :: "obj \<Rightarrow> nat \<Rightarrow> world \<Rightarrow> world" where
  "addShape props a w =
     (let defaults =
            [''shape'' \<mapsto> JStr ''rectangle'',
             ''x'' \<mapsto> num 10, ''y'' \<mapsto> num 10, ''width'' \<mapsto> num 150, ''height'' \<mapsto> num 100,
             ''strokeColor'' \<mapsto> JStr ''#000000'', ''strokeWidth'' \<mapsto> num 2,
             ''fillColor'' \<mapsto> JStr ''transparent''];
          (newId, w1) = generateId w
      in addElement ((defaults ++ props)(''id'' \<mapsto> JStr newId, ''type'' \<mapsto> JStr ''shape'')) a w1)"

definition addCharacter :: "obj \<Rightarrow> nat \<Rightarrow> world \<Rightarrow> world" where
  "addCharacter props a w =
     (let (actionId, w1) = generateId w;
          defaults =
            [''character'' \<mapsto> JStr ''char1'',
             ''x'' \<mapsto> num 50, ''y'' \<mapsto> num 350, ''width'' \<mapsto> num 150, ''height'' \<mapsto> num 200,
             ''actions'' \<mapsto>
                JArr [JObj [''id'' \<mapsto> JStr actionId, ''type'' \<mapsto> JStr ''text'',
                            ''text'' \<mapsto> JStr ''Hello!'']]];
          (newId, w2) = generateId w1
      in addElement ((defaults ++ props)(''id'' \<mapsto> JStr newId, ''type'' \<mapsto> JStr ''gamification'')) a w2)"

definition setSlideProp :: "string \<Rightarrow> jsval \<Rightarrow> nat \<Rightarrow> world \<Rightarrow> world" where
  "setSlideProp k v a w = w\<lparr>slides := (slides w)(a := (slides w a)(k \<mapsto> v))\<rparr>"

definition setBackgroundColor :: "string \<Rightarrow> nat \<Rightarrow> world \<Rightarrow> world" where
  "setBackgroundColor color a w = setSlideProp ''backgroundColor'' (JStr color) a w"

definition setBackgroundImageUrl :: "string \<Rightarrow> nat \<Rightarrow> world \<Rightarrow> world" where
  "setBackgroundImageUrl url a w = setSlideProp ''backgroundImageUrl'' (JStr url) a w"

text \<open>The parameter object of \<open>setBorder\<close>, at its declared type.\<close>

record borderProps =
  bp_style :: string
  bp_color :: "string option"
  bp_width :: "jsnum option"

definition optNum :: "jsnum option \<Rightarrow> jsval" where
  "optNum x = (case x of None \<Rightarrow> JUndefined | Some n \<Rightarrow> JNum n)"

definition setBorder :: "borderProps \<Rightarrow> nat \<Rightarrow> world \<Rightarrow> world" where
  "setBorder props a w =
     (let w1 = setSlideProp ''borderStyle'' (JStr (bp_style props)) a w;
          w2 = (if truthy (optStr (bp_color props))
                then setSlideProp ''borderColor'' (optStr (bp_color props)) a w1 else w1);
          w3 = (if truthy (optNum (bp_width props))
                then setSlideProp ''borderWidth'' (optNum (bp_width props)) a w2 else w2)
      in w3)"

text \<open>\<open>getSlideObject\<close> returns the internal object itself: its address.\<close>

definition getSlideObject :: "nat \<Rightarrow> jsval" where
  "getSlideObject a = JRef a"

section \<open>Presentation.addSlide, addQuiz, addSource\<close>

definition addSlide :: "nat \<Rightarrow> world \<Rightarrow> world" where
  "addSlide slide w =
     addMediaItem
       [''type'' \<mapsto> JStr ''created-slide'',
        ''name'' \<mapsto> get (slides w slide) ''title'',
        ''slide'' \<mapsto> getSlideObject slide] w"

definition addQuiz :: "obj \<Rightarrow> world \<Rightarrow> world" where
  "addQuiz quizData w =
     (let (quizId, w1) = generateId w
      in addMediaItem
           [''type'' \<mapsto> JStr ''quiz'',
            ''name'' \<mapsto> get quizData ''title'',
            ''quiz'' \<mapsto> JObj (quizData(''id'' \<mapsto> JStr quizId))] w1)"

definition addSource :: "obj \<Rightarrow> world \<Rightarrow> world" where
  "addSource source w =
     (let (newId, w1) = generateId w
      in w1\<lparr>sources := sources w1 @ [source(''id'' \<mapsto> JStr newId)]\<rparr>)"

text \<open>
  What a reader of the queue (\<open>toJSON\<close>) finds under a property of a queued item: a
  reference is followed into the store as it is at the time of reading.
\<close>

definition deref :: "world \<Rightarrow> jsval \<Rightarrow> jsval" where
  "deref w v = (case v of JRef a \<Rightarrow> JObj (slides w a) | _ \<Rightarrow> v)"

text \<open>The calls that mutate a \<open>Slide\<close>, and a sequence of them on one slide.\<close>

datatype slideCall =
    AddText obj
  | AddImage obj
  | AddSticker obj
  | AddMath obj
  | AddShape obj
  | AddCharacter obj
  | SetBackgroundColor string
  | SetBackgroundImageUrl string
  | SetBorder borderProps

fun call :: "nat \<Rightarrow> world \<Rightarrow> slideCall \<Rightarrow> world" where
  "call a w (AddText props) = addText props a w"
| "call a w (AddImage props) = addImage props a w"
| "call a w (AddSticker props) = addSticker props a w"
| "call a w (AddMath props) = addMath props a w"
| "call a w (AddShape props) = addShape props a w"
| "call a w (AddCharacter props) = addCharacter props a w"
| "call a w (SetBackgroundColor color) = setBackgroundColor color a w"
| "call a w (SetBackgroundImageUrl url) = setBackgroundImageUrl url a w"
| "call a w (SetBorder props) = setBorder props a w"

definition calls :: "nat \<Rightarrow> slideCall list \<Rightarrow> world \<Rightarrow> world" where
  "calls a cs w = foldl (call a) w cs"

text \<open>A fresh run: an empty presentation, no slides, a clock and a random source.\<close>

definition newRun :: "(nat \<Rightarrow> nat) \<Rightarrow> (nat \<Rightarrow> string) \<Rightarrow> world" where
  "newRun clk rnd =
     \<lparr>mediaQueue = [], sources = [], slides = (\<lambda>a. Map.empty), nslides = 0, console = [],
      clock = clk, random = rnd, reads = 0\<rparr>"

section \<open>The derivation of headers and rows, in the words of the specification\<close>

text \<open>
  Content is split on newlines and blank lines are skipped; the first remaining line,
  comma-split and trimmed, gives the headers; each later line, comma-split, gives a row
  whose cells are numbers where the trimmed text parses as a number and the trimmed
  text otherwise.
\<close>

definition blankLine :: "string \<Rightarrow> bool" where
  "blankLine l = list_all isWhiteSpace l"

definition contentLines :: "string \<Rightarrow> string list" where
  "contentLines c = filter (\<lambda>l. \<not> blankLine l) (split (CHR 0x0A) c)"

definition derivedHeaders :: "string \<Rightarrow> string list" where
  "derivedHeaders c = (case contentLines c of [] \<Rightarrow> [] | l # ls \<Rightarrow> map trim (split CHR '','' l))"

definition derivedCell :: "string \<Rightarrow> cell" where
  "derivedCell s = (if Number (trim s) \<noteq> NaN then CNum (Number (trim s)) else CStr (trim s))"

definition derivedRows :: "string \<Rightarrow> cell list list" where
  "derivedRows c = map (\<lambda>l. map derivedCell (split CHR '','' l)) (tl (contentLines c))"

section \<open>The recognized YouTube URL shapes, in the words of the specification\<close>

text \<open>
  A url matches when one of the four shapes occurs in it, followed by 11 characters of
  the identifier alphabet; \<open>shapeAt url n v\<close> says so for the offset \<open>n\<close> and the
  identifier \<open>v\<close>, and \<open>specVideoId\<close> is the identifier behind the leftmost such
  occurrence.
\<close>

definition shapes :: "string list" where
  "shapes = [''youtube.com/watch?v='', ''youtube.com/embed/'', ''youtube.com/v/'', ''youtu.be/'']"

definition isVideoId :: "string \<Rightarrow> bool" where
  "isVideoId v = (length v = 11 \<and> list_all isIdChar v)"

definition idAfter :: "string \<Rightarrow> string \<Rightarrow> string option" where
  "idAfter sh s =
     (if take (length sh) s = sh \<and> isVideoId (take 11 (drop (length sh) s))
      then Some (take 11 (drop (length sh) s)) else None)"

definition shapeHere :: "string \<Rightarrow> string option" where
  "shapeHere s =
     (case List.find (\<lambda>sh. idAfter sh s \<noteq> None) shapes of
        None \<Rightarrow> None
      | Some sh \<Rightarrow> idAfter sh s)"

fun specVideoId :: "string \<Rightarrow> string option" where
  "specVideoId [] = None"
| "specVideoId (c # cs) =
     (case shapeHere (c # cs) of Some v \<Rightarrow> Some v | None \<Rightarrow> specVideoId cs)"

definition shapeAt :: "string \<Rightarrow> nat \<Rightarrow> string \<Rightarrow> bool" where
  "shapeAt url n v =
     (isVideoId v \<and> list_ex (\<lambda>sh. take (length sh + 11) (drop n url) = sh @ v) shapes)"

section \<open>The element defaults, in the words of the specification\<close>

text \<open>
  The table of default fields per element type, and the merge rule: the identifier and
  the type discriminant come from the builder, every other field is the caller's where
  the caller supplies it and the default otherwise. The sticker takes \<open>content\<close>, \<open>x\<close>
  and \<open>y\<close> from the caller, a size that defaults to 100 and is copied into \<open>width\<close>,
  \<open>height\<close> and \<open>fontSize\<close>, and a rotation that defaults to 0. The character's default
  action is a text action saying Hello.
\<close>

definition specDefaults :: "string \<Rightarrow> (string \<times> jsval) list" where
  "specDefaults ty =
     (if ty = ''text'' then
        [(''content'', JStr ''New Text''),
         (''x'', num 10), (''y'', num 10), (''width'', num 300), (''height'', num 50),
         (''fontSize'', num 24), (''color'', JStr ''#000000''),
         (''fontFamily'', JStr ''Alegreya''), (''animation'', JStr ''none'')]
      else if ty = ''image'' then
        [(''src'', JStr ''https://placehold.co/300x200.png''),
         (''x'', num 10), (''y'', num 10), (''width'', num 300), (''height'', num 200)]
      else if ty = ''math'' then
        [(''content'', JStr ''E = mc^2''),
         (''x'', num 10), (''y'', num 10), (''width'', num 200), (''height'', num 60),
         (''fontSize'', num 24), (''color'', JStr ''#000000'')]
      else if ty = ''shape'' then
        [(''shape'', JStr ''rectangle''),
         (''x'', num 10), (''y'', num 10), (''width'', num 150), (''height'', num 100),
         (''strokeColor'', JStr ''#000000''), (''strokeWidth'', num 2),
         (''fillColor'', JStr ''transparent'')]
      else if ty = ''gamification'' then
        [(''character'', JStr ''char1''),
         (''x'', num 50), (''y'', num 350), (''width'', num 150), (''height'', num 200)]
      else [])"

definition specElement :: "string \<Rightarrow> (string \<times> jsval) list \<Rightarrow> string \<Rightarrow> obj \<Rightarrow> obj" where
  "specElement ty defaults newId props =
     (\<lambda>k. if k = ''id'' then Some (JStr newId)
          else if k = ''type'' then Some (JStr ty)
          else (case props k of Some v \<Rightarrow> Some v | None \<Rightarrow> map_of defaults k))"

definition specHelloAction :: "string \<Rightarrow> jsval" where
  "specHelloAction actionId =
     JObj (map_of [(''id'', JStr actionId), (''type'', JStr ''text''), (''text'', JStr ''Hello!'')])"

definition specSticker :: "string \<Rightarrow> obj \<Rightarrow> obj" where
  "specSticker newId props =
     (let size = (if get props ''size'' = JUndefined then num 100 else get props ''size'');
          rotation = (if get props ''rotation'' = JUndefined then num 0 else get props ''rotation'')
      in map_of
           [(''id'', JStr newId), (''type'', JStr ''sticker''),
            (''content'', get props ''content''), (''x'', get props ''x''), (''y'', get props ''y''),
            (''width'', size), (''height'', size), (''fontSize'', size),
            (''rotation'', rotation)])"

text \<open>The slide object at \<open>a\<close> with one more element at the end of its \<open>elements\<close>.\<close>

definition appended :: "world \<Rightarrow> nat \<Rightarrow> obj \<Rightarrow> obj" where
  "appended w a element =
     (slides w a)(''elements'' \<mapsto> JArr (elementsOf (slides w a) @ [JObj element]))"

section \<open>Sequences of setBorder calls\<close>

text \<open>
  \<open>setBorders\<close> runs a sequence of \<open>setBorder\<close> calls on one slide. The effective colors
  (widths) of a sequence are the ones that pass the truthiness test of \<open>setBorder\<close>:
  non-empty strings (numbers other than 0 and \<open>NaN\<close>).
\<close>

definition setBorders :: "borderProps list \<Rightarrow> nat \<Rightarrow> world \<Rightarrow> world" where
  "setBorders ps a w = foldl (\<lambda>w p. setBorder p a w) w ps"

definition effectiveColors :: "borderProps list \<Rightarrow> string list" where
  "effectiveColors ps = concat (map (\<lambda>p. case bp_color p of None \<Rightarrow> [] | Some c \<Rightarrow> if c \<noteq> [] then [c] else []) ps)"

definition effectiveWidths :: "borderProps list \<Rightarrow> jsnum list" where
  "effectiveWidths ps =
     concat (map (\<lambda>p. case bp_width p of None \<Rightarrow> []
                     | Some n \<Rightarrow> if n \<noteq> Finite 0 \<and> n \<noteq> NaN then [n] else []) ps)"

section \<open>Auxiliary readers\<close>

text \<open>The quiz record carried by a queued item.\<close>

definition quizOf :: "obj \<Rightarrow> obj" where
  "quizOf item = (case get item ''quiz'' of JObj q \<Rightarrow> q | _ \<Rightarrow> Map.empty)"

text \<open>The digits of base 36.\<close>

definition alphabet36 :: string where
  "alphabet36 = ''0123456789abcdefghijklmnopqrstuvwxyz''"

text \<open>The media queue after a call that may throw; nothing is queued by a throw.\<close>

definition queueOf :: "error + world \<Rightarrow> obj list" where
  "queueOf r = (case r of Inl e \<Rightarrow> [] | Inr w \<Rightarrow> mediaQueue w)"

section \<open>Example inputs\<close>

definition exampleRun :: world where
  "exampleRun = newRun (\<lambda>k. 1730000000000) (\<lambda>k. ''0.4fzyo82mvyr'')"

text \<open>\<open>"a,b\n1,x\n2,y"\<close>\<close>

definition exampleContent :: string where
  "exampleContent =
     [CHR ''a'', CHR '','', CHR ''b'', CHR 0x0A, CHR ''1'', CHR '','', CHR ''x'', CHR 0x0A,
      CHR ''2'', CHR '','', CHR ''y'']"


definition exampleNoData :: csvData where
  "exampleNoData =
     \<lparr>csv_name = ''t'', csv_content = None, csv_headers = None, csv_rows = None,
      csv_notes = None, csv_transition = None\<rparr>"

definition exampleHeadersOnly :: csvData where
  "exampleHeadersOnly =
     \<lparr>csv_name = ''t'', csv_content = Some exampleContent,
      csv_headers = Some [''p'', ''q'', ''r''], csv_rows = None,
      csv_notes = None, csv_transition = None\<rparr>"

text \<open>\<open>"a,b,c\n1,,2"\<close>\<close>

definition exampleGapContent :: string where
  "exampleGapContent =
     [CHR ''a'', CHR '','', CHR ''b'', CHR '','', CHR ''c'', CHR 0x0A,
      CHR ''1'', CHR '','', CHR '','', CHR ''2'']"

definition exampleGap :: csvData where
  "exampleGap =
     \<lparr>csv_name = ''t'', csv_content = Some exampleGapContent,
      csv_headers = None, csv_rows = None, csv_notes = None, csv_transition = None\<rparr>"

definition exampleVideo :: obj where
  "exampleVideo =
     [''name'' \<mapsto> JStr ''v'', ''url'' \<mapsto> JStr ''https://www.youtube.com/watch?v=dQw4w9WgXcQ'']"

definition exampleNotUrl :: obj where
  "exampleNotUrl = [''name'' \<mapsto> JStr ''v'', ''url'' \<mapsto> JStr ''not-a-url'']"

text \<open>Properties that carry a \<open>type\<close> and an \<open>embedUrl\<close> of their own.\<close>

definition exampleOverride :: obj where
  "exampleOverride =
     [''name'' \<mapsto> JStr ''v'', ''url'' \<mapsto> JStr ''https://www.youtube.com/watch?v=dQw4w9WgXcQ'',
      ''type'' \<mapsto> JStr ''pdf'', ''embedUrl'' \<mapsto> JStr ''x'']"

definition exampleSolid :: borderProps where
  "exampleSolid = \<lparr>bp_style = ''solid'', bp_color = None, bp_width = None\<rparr>"

definition exampleAnts :: borderProps where
  "exampleAnts = \<lparr>bp_style = ''ants'', bp_color = None, bp_width = None\<rparr>"

definition exampleWidth5 :: borderProps where
  "exampleWidth5 = \<lparr>bp_style = ''solid'', bp_color = None, bp_width = Some (Finite 5)\<rparr>"

definition exampleWidth0 :: borderProps where
  "exampleWidth0 = \<lparr>bp_style = ''solid'', bp_color = None, bp_width = Some (Finite 0)\<rparr>"

text \<open>A run in which one slide, at address 0, has been created.\<close>

definition exampleSlideRun :: world where
  "exampleSlideRun = snd (newSlide ''Title Slide'' None exampleRun)"

definition exampleQueued :: world where
  "exampleQueued = addSlide 0 exampleSlideRun"

definition exampleMutated :: world where
  "exampleMutated = addText Map.empty 0 exampleQueued"

text \<open>The quiz of the README: its question and its options carry no \<open>id\<close>.\<close>

definition exampleOptionYes :: obj where
  "exampleOptionYes = [''text'' \<mapsto> JStr ''Yes!'', ''isCorrect'' \<mapsto> JBool True]"

definition exampleOptionAbsolutely :: obj where
  "exampleOptionAbsolutely = [''text'' \<mapsto> JStr ''Absolutely!'', ''isCorrect'' \<mapsto> JBool True]"

definition exampleQuestion :: obj where
  "exampleQuestion =
     [''type'' \<mapsto> JStr ''multiple-choice'',
      ''questionText'' \<mapsto> JStr ''Is scripting cool?'',
      ''timer'' \<mapsto> num 15,
      ''options'' \<mapsto> JArr [JObj exampleOptionYes, JObj exampleOptionAbsolutely]]"

definition exampleQuiz :: obj where
  "exampleQuiz = [''title'' \<mapsto> JStr ''Pop Quiz!'', ''questions'' \<mapsto> JArr [JObj exampleQuestion]]"

definition exampleItem :: obj where
  "exampleItem = [''type'' \<mapsto> JStr ''url'', ''name'' \<mapsto> JStr ''n'', ''url'' \<mapsto> JStr ''u'']"

text \<open>Text properties that try to set \<open>id\<close> and \<open>type\<close>.\<close>

definition exampleTextProps :: obj where
  "exampleTextProps = [''id'' \<mapsto> JStr ''mine'', ''type'' \<mapsto> JStr ''image'', ''x'' \<mapsto> num 7]"

section \<open>Properties of addMediaItem and of the CSV derivation\<close>

lemma mediaQueue_addMediaItem:
  "mediaQueue (addMediaItem item w) =
     mediaQueue w @ [item(''id'' \<mapsto> JStr (fst (generateId w)),
                          ''transition'' \<mapsto> js_or (get item ''transition'') (JStr ''fade''))]"
  by (simp add: addMediaItem_def generateId_def)

lemma trim_empty_iff: "trim s = [] \<longleftrightarrow> list_all isWhiteSpace s"
proof
  assume "trim s = []"
  then have a: "\<forall>x\<in>set (dropWhile isWhiteSpace s). isWhiteSpace x"
    by (simp add: trim_def dropWhile_eq_Nil_conv)
  have "dropWhile isWhiteSpace s = []"
  proof (rule ccontr)
    assume n: "dropWhile isWhiteSpace s \<noteq> []"
    then have "\<not> isWhiteSpace (hd (dropWhile isWhiteSpace s))" by (rule hd_dropWhile)
    moreover have "hd (dropWhile isWhiteSpace s) \<in> set (dropWhile isWhiteSpace s)"
      using n by simp
    ultimately show False using a by blast
  qed
  then show "list_all isWhiteSpace s"
    by (simp add: dropWhile_eq_Nil_conv list_all_iff)
next
  assume "list_all isWhiteSpace s"
  then have "dropWhile isWhiteSpace s = []"
    by (simp add: dropWhile_eq_Nil_conv list_all_iff)
  then show "trim s = []" unfolding trim_def by (simp only: rev.simps dropWhile.simps)
qed

lemma coerceCell_derivedCell: "coerceCell s = derivedCell s"
  by (simp add: coerceCell_def derivedCell_def isNaN_def Let_def)

lemma addCsv_derives:
  assumes "csv_content d = Some c" and "c \<noteq> []"
    and "csv_headers d = None \<or> csv_rows d = None"
  shows "addCsv numToString d w = addMediaItem (csvItem d (derivedHeaders c) (derivedRows c) c) w"
proof -
  have l: "filter (\<lambda>line. trim line \<noteq> []) (split (CHR 0x0A) c) = contentLines c"
    by (simp add: contentLines_def blankLine_def trim_empty_iff)
  have r: "map (\<lambda>line. map coerceCell (split CHR '','' line)) (drop (Suc 0) (contentLines c)) = derivedRows c"
    by (simp add: derivedRows_def coerceCell_derivedCell drop_Suc)
  have h: "(case contentLines c of [] \<Rightarrow> [] | l # x \<Rightarrow> map trim (split CHR '','' l)) = derivedHeaders c"
    by (simp add: derivedHeaders_def)
  show ?thesis
    using assms by (simp add: addCsv_def Let_def optStr_def l r h)
qed

lemma csvItem_get:
  "get ((csvItem d hs rs c)(''id'' \<mapsto> i, ''transition'' \<mapsto> t)) ''type'' = JStr ''csv''"
  "get ((csvItem d hs rs c)(''id'' \<mapsto> i, ''transition'' \<mapsto> t)) ''headers'' = headersVal hs"
  "get ((csvItem d hs rs c)(''id'' \<mapsto> i, ''transition'' \<mapsto> t)) ''rows'' = rowsVal rs"
  "get ((csvItem d hs rs c)(''id'' \<mapsto> i, ''transition'' \<mapsto> t)) ''content'' = JStr c"
  by (simp_all add: get_def csvItem_def)

lemma addCsv_derived_item:
  assumes "csv_content d = Some c" and "c \<noteq> []"
    and "csv_headers d = None \<or> csv_rows d = None"
  shows "\<exists>item. mediaQueue (addCsv numToString d w) = mediaQueue w @ [item]
           \<and> get item ''type'' = JStr ''csv''
           \<and> get item ''headers'' = headersVal (derivedHeaders c)
           \<and> get item ''rows'' = rowsVal (derivedRows c)"
  using addCsv_derives [OF assms, of numToString w]
  by (simp add: mediaQueue_addMediaItem csvItem_get)

lemma addCsv_rejects:
  assumes "csv_content d = None \<or> csv_content d = Some []" and "csv_rows d = None"
  shows "addCsv numToString d w = w\<lparr>console := console w @ [csvWarning]\<rparr>"
  using assms by (auto simp add: addCsv_def optStr_def)

text \<open>Evaluating \<open>Number\<close> on literals.\<close>

lemma bitLength_numeral:
  "bitLength (numeral Num.One) = 1"
  "bitLength (numeral (Num.Bit0 k)) = Suc (bitLength (numeral k))"
  "bitLength (numeral (Num.Bit1 k)) = Suc (bitLength (numeral k))"
  "bitLength 1 = 1"
  "bitLength 0 = 0"
  by (subst bitLength.simps, simp add: bitLength.simps)+

lemmas Number_defs =
  Number_def trim_def isWhiteSpace_def nonDecimalIntegerLiteral_def strDecimalLiteral_def
  strUnsignedDecimalLiteral_def isDigit_def exponentPart_def signedInteger_def decimalDigits_def
  digitsVal_def roundDecimal_def roundRatio_def bitLength_numeral pow2_def Let_def negate_def

lemma Number_examples:
  "Number ''1'' = Finite 1"
  "Number ''2'' = Finite 2"
  "Number ''x'' = NaN"
  "Number ''y'' = NaN"
  by (simp_all add: Number_defs)

lemma Number_rounds:
  "Number ''9007199254740993'' = Finite 9007199254740992"
  "Number ''0.1'' = Finite (3602879701896397 / 36028797018963968)"
  "Number ''-1.5e3'' = Finite (- 1500)"
  "Number ''0x1F'' = Finite 31"
  by (simp_all add: Number_defs radixDigits_def radixDigit_def)

lemma Number_overflows: "Number ''1e400'' = PosInfinity"
  by (simp add: Number_defs)

lemma trim_examples:
  "trim ''1'' = ''1''" "trim ''2'' = ''2''" "trim ''x'' = ''x''" "trim ''y'' = ''y''"
  by (simp_all add: trim_def isWhiteSpace_def)

lemma example_lines: "contentLines exampleContent = [''a,b'', ''1,x'', ''2,y'']"
  by (simp add: contentLines_def exampleContent_def blankLine_def isWhiteSpace_def)

lemma example_headers: "derivedHeaders exampleContent = [''a'', ''b'']"
  by (simp add: derivedHeaders_def example_lines trim_def isWhiteSpace_def)

lemma example_rows:
  "derivedRows exampleContent = [[CNum (Finite 1), CStr ''x''], [CNum (Finite 2), CStr ''y'']]"
  by (simp add: derivedRows_def example_lines derivedCell_def trim_examples Number_examples)

lemma Number_empty: "Number [] = Finite 0"
  by (simp add: Number_def trim_def)

lemma derivedCell_empty: "trim s = [] \<Longrightarrow> derivedCell s = CNum (Finite 0)"
  by (simp add: derivedCell_def Number_empty)



text \<open>
  C5. A call of \<open>addCsv\<close> with neither content nor rows appends nothing: the media queue
  and the sources are as before, one warning is written to the console, and the call
  returns (the model is a total function without an error result).
\<close>

theorem addCsv_without_data:
  assumes "csv_content d = None" and "csv_rows d = None"
  shows "addCsv numToString d w = w\<lparr>console := console w @ [csvWarning]\<rparr>
       \<and> mediaQueue (addCsv numToString d w) = mediaQueue w
       \<and> sources (addCsv numToString d w) = sources w
       \<and> console (addCsv numToString d w) = console w @ [csvWarning]"
  using assms by (simp add: addCsv_rejects)

theorem addCsv_without_data_witness:
  "mediaQueue (addCsv (\<lambda>n. []) exampleNoData exampleRun) = []
   \<and> console (addCsv (\<lambda>n. []) exampleNoData exampleRun) = [csvWarning]"
  using addCsv_without_data [of exampleNoData "\<lambda>n. []" exampleRun]
  by (simp add: exampleNoData_def exampleRun_def newRun_def)

text \<open>
  C9. When \<open>content\<close> is a non-empty string and exactly one of \<open>headers\<close> and \<open>rows\<close> is
  supplied, the queued item's headers and rows are both the ones derived from the
  content; the supplied \<open>hs\<close> (or \<open>rs\<close>) does not occur in the result.
\<close>

theorem addCsv_rederives:
  assumes "csv_content d = Some c" and "c \<noteq> []"
    and "(csv_headers d = Some hs \<and> csv_rows d = None) \<or> (csv_headers d = None \<and> csv_rows d = Some rs)"
  shows "\<exists>item. mediaQueue (addCsv numToString d w) = mediaQueue w @ [item]
           \<and> get item ''headers'' = headersVal (derivedHeaders c)
           \<and> get item ''rows'' = rowsVal (derivedRows c)"
proof -
  have "csv_headers d = None \<or> csv_rows d = None" using assms(3) by auto
  from addCsv_derived_item [OF assms(1) assms(2) this, of numToString w]
  show ?thesis by blast
qed

theorem addCsv_rederives_witness:
  "\<exists>item. mediaQueue (addCsv (\<lambda>n. []) exampleHeadersOnly exampleRun) = [item]
     \<and> get item ''headers'' = JArr [JStr ''a'', JStr ''b'']
     \<and> get item ''rows'' =
         JArr [JArr [JNum (Finite 1), JStr ''x''], JArr [JNum (Finite 2), JStr ''y'']]"
proof -
  have c: "exampleContent \<noteq> []" by (simp add: exampleContent_def)
  show ?thesis
    using c addCsv_rederives [of exampleHeadersOnly exampleContent "[''p'', ''q'', ''r'']" _
        "\<lambda>n. []" exampleRun]
    by (simp add: exampleHeadersOnly_def exampleRun_def newRun_def example_headers example_rows
        headersVal_def rowsVal_def)
qed

text \<open>
  C10. When rows are derived from the content, every cell of a data line (a non-blank
  line after the first) whose trimmed text is empty is the number 0 in the derived row:
  the derived rows line up with the data lines and their comma-split cells, and such a
  cell is \<open>CNum (Finite 0)\<close>, not an empty string.
\<close>

theorem addCsv_empty_cell_is_zero:
  assumes "csv_content d = Some c" and "c \<noteq> []"
    and "csv_headers d = None \<or> csv_rows d = None"
  shows "\<exists>item rows. mediaQueue (addCsv numToString d w) = mediaQueue w @ [item]
           \<and> get item ''rows'' = rowsVal rows
           \<and> length rows = length (tl (contentLines c))
           \<and> (\<forall>i < length rows. length (rows ! i) = length (split CHR '','' (tl (contentLines c) ! i)))
           \<and> (\<forall>i < length rows. \<forall>j < length (rows ! i).
                 trim (split CHR '','' (tl (contentLines c) ! i) ! j) = [] \<longrightarrow>
                 rows ! i ! j = CNum (Finite 0))"
proof -
  from addCsv_derived_item [OF assms, of numToString w]
  obtain item where q: "mediaQueue (addCsv numToString d w) = mediaQueue w @ [item]"
    and r: "get item ''rows'' = rowsVal (derivedRows c)" by blast
  have "length (derivedRows c) = length (tl (contentLines c))"
    by (simp add: derivedRows_def)
  moreover have "\<forall>i < length (derivedRows c).
      length (derivedRows c ! i) = length (split CHR '','' (tl (contentLines c) ! i))"
    by (simp add: derivedRows_def)
  moreover have "\<forall>i < length (derivedRows c). \<forall>j < length (derivedRows c ! i).
      trim (split CHR '','' (tl (contentLines c) ! i) ! j) = [] \<longrightarrow>
      derivedRows c ! i ! j = CNum (Finite 0)"
    by (simp add: derivedRows_def derivedCell_empty)
  ultimately show ?thesis using q r by blast
qed

theorem addCsv_empty_cell_is_zero_witness:
  "\<exists>item rows. mediaQueue (addCsv (\<lambda>n. []) exampleGap exampleRun) = [item]
     \<and> get item ''rows'' = rowsVal rows
     \<and> rows ! 0 ! 1 = CNum (Finite 0)"
proof -
  have c: "csv_content exampleGap = Some exampleGapContent" "exampleGapContent \<noteq> []"
    "csv_headers exampleGap = None \<or> csv_rows exampleGap = None"
    by (simp_all add: exampleGap_def exampleGapContent_def)
  have l: "tl (contentLines exampleGapContent) = [''1,,2'']" by code_simp
  have t: "trim [] = []" by (simp add: trim_def)
  have q: "mediaQueue exampleRun = []" by (simp add: exampleRun_def newRun_def)
  from addCsv_empty_cell_is_zero [OF c, of "\<lambda>n. []" exampleRun]
  obtain item rows where
    a: "mediaQueue (addCsv (\<lambda>n. []) exampleGap exampleRun) = mediaQueue exampleRun @ [item]"
    and b: "get item ''rows'' = rowsVal rows"
    and n: "length rows = length (tl (contentLines exampleGapContent))"
    and m: "\<forall>i < length rows. length (rows ! i) = length (split CHR '','' (tl (contentLines exampleGapContent) ! i))"
    and z: "\<forall>i < length rows. \<forall>j < length (rows ! i).
                 trim (split CHR '','' (tl (contentLines exampleGapContent) ! i) ! j) = [] \<longrightarrow>
                 rows ! i ! j = CNum (Finite 0)"
    by blast
  have n1: "0 < length rows" using n l by simp
  have m1: "1 < length (rows ! 0)" using m n1 l by simp
  have "rows ! 0 ! 1 = CNum (Finite 0)" using z n1 m1 l t by simp
  then show ?thesis using a b q by auto
qed

section \<open>Properties of addYouTube\<close>

lemma stripPrefix_eq:
  "stripPrefix p s = (if take (length p) s = p then Some (drop (length p) s) else None)"
  by (induction p s rule: stripPrefix.induct) auto

lemma lit_append: "lit (p @ q) k s = lit p (lit q k) s"
  by (induction p s rule: stripPrefix.induct) (auto simp: lit_def)

lemma lit_orElse:
  "lit p (\<lambda>r. orElse (f r) (g r)) s = orElse (lit p f s) (lit p g s)"
  by (simp add: lit_def orElse_def split: option.splits)

lemma orElse_assoc: "orElse (orElse a b) c = orElse a (orElse b c)"
  by (simp add: orElse_def split: option.splits)

lemma lit_videoId: "lit sh videoId s = idAfter sh s"
  by (auto simp: lit_def stripPrefix_eq videoId_def idAfter_def isVideoId_def)

lemma lit_idAfter: "lit p (idAfter q) s = idAfter (p @ q) s"
proof -
  have "idAfter q = lit q videoId" by (rule ext) (simp add: lit_videoId)
  then show ?thesis by (simp add: lit_append [symmetric] lit_videoId)
qed

lemma hostPath_flat:
  "hostPath s =
     orElse (idAfter ''youtube.com/watch?v='' s)
       (orElse (idAfter ''youtube.com/embed/'' s)
          (orElse (idAfter ''youtube.com/v/'' s) (idAfter ''youtu.be/'' s)))"
  by (simp add: hostPath_def lit_orElse lit_videoId lit_idAfter orElse_assoc)

lemma shapeHere_flat:
  "shapeHere s =
     orElse (idAfter ''youtube.com/watch?v='' s)
       (orElse (idAfter ''youtube.com/embed/'' s)
          (orElse (idAfter ''youtube.com/v/'' s) (idAfter ''youtu.be/'' s)))"
  by (simp add: shapeHere_def shapes_def orElse_def split: option.splits)

lemma hostPath_shapeHere: "hostPath s = shapeHere s"
  by (simp only: hostPath_flat shapeHere_flat)


lemma idAfter_not_y:
  "c \<noteq> CHR ''y'' \<Longrightarrow> sh \<in> set shapes \<Longrightarrow> idAfter sh (c # cs) = None"
  by (auto simp: shapes_def idAfter_def)

lemma shapeHere_not_y: "c \<noteq> CHR ''y'' \<Longrightarrow> shapeHere (c # cs) = None"
  by (simp add: shapeHere_flat orElse_def idAfter_not_y shapes_def)

lemma shapeHere_Nil: "shapeHere [] = None"
  by (simp add: shapeHere_flat orElse_def idAfter_def)

lemma specVideoId_skip:
  "\<forall>c\<in>set p. c \<noteq> CHR ''y'' \<Longrightarrow> specVideoId (p @ r) = specVideoId r"
  by (induction p) (simp_all add: shapeHere_not_y)

lemma shapeHere_specVideoId: "shapeHere s = Some v \<Longrightarrow> specVideoId s = Some v"
  by (cases s) (simp_all add: shapeHere_Nil)

lemma lit_Some: "lit p k s = Some v \<Longrightarrow> \<exists>r. s = p @ r \<and> k r = Some v"
  by (auto simp: lit_def stripPrefix_eq split: if_splits) (metis append_take_drop_id)

lemma matchHere_flat:
  "matchHere s =
     orElse (lit ''https://www.'' hostPath s)
       (orElse (lit ''https://'' hostPath s)
          (orElse (lit ''http://www.'' hostPath s)
             (orElse (lit ''http://'' hostPath s)
                (orElse (lit ''www.'' hostPath s) (hostPath s)))))"
proof -
  have w: "www = (\<lambda>r. orElse (lit ''www.'' hostPath r) (hostPath r))"
    by (rule ext) (simp add: www_def)
  have 1: "lit ''http'' (lit ''s'' (lit ''://'' (lit ''www.'' hostPath))) s = lit ''https://www.'' hostPath s"
    using lit_append [of "''http''" "''s''"] lit_append [of "''https''" "''://''"]
      lit_append [of "''https://''" "''www.''"] by simp
  have 2: "lit ''http'' (lit ''s'' (lit ''://'' hostPath)) s = lit ''https://'' hostPath s"
    using lit_append [of "''http''" "''s''"] lit_append [of "''https''" "''://''"] by simp
  have 3: "lit ''http'' (lit ''://'' (lit ''www.'' hostPath)) s = lit ''http://www.'' hostPath s"
    using lit_append [of "''http''" "''://''"] lit_append [of "''http://''" "''www.''"] by simp
  have 4: "lit ''http'' (lit ''://'' hostPath) s = lit ''http://'' hostPath s"
    using lit_append [of "''http''" "''://''"] by simp
  show ?thesis
    unfolding matchHere_def w lit_orElse 1 2 3 4 orElse_assoc
    by (simp add: www_def)
qed

lemma orElse_None: "orElse a b = None \<longleftrightarrow> a = None \<and> b = None"
  by (simp add: orElse_def split: option.splits)

lemma orElse_Some: "orElse a b = Some v \<longleftrightarrow> a = Some v \<or> (a = None \<and> b = Some v)"
  by (simp add: orElse_def split: option.splits)

lemma hostPath_Some: "hostPath s = Some v \<Longrightarrow> specVideoId s = Some v"
  by (simp add: shapeHere_specVideoId hostPath_shapeHere)

lemma lit_hostPath_Some:
  assumes "lit p hostPath s = Some v" and "\<forall>c\<in>set p. c \<noteq> CHR ''y''"
  shows "specVideoId s = Some v"
proof -
  from assms(1) obtain r where "s = p @ r" and "hostPath r = Some v" using lit_Some by blast
  then show ?thesis using assms(2) by (simp add: specVideoId_skip hostPath_Some)
qed

lemma matchHere_Some: "matchHere s = Some v \<Longrightarrow> specVideoId s = Some v"
proof -
  assume "matchHere s = Some v"
  then consider
      "lit ''https://www.'' hostPath s = Some v"
    | "lit ''https://'' hostPath s = Some v"
    | "lit ''http://www.'' hostPath s = Some v"
    | "lit ''http://'' hostPath s = Some v"
    | "lit ''www.'' hostPath s = Some v"
    | "hostPath s = Some v"
    unfolding matchHere_flat orElse_Some by blast
  then show ?thesis
  proof cases
    case 1 then show ?thesis by (rule lit_hostPath_Some) simp
  next
    case 2 then show ?thesis by (rule lit_hostPath_Some) simp
  next
    case 3 then show ?thesis by (rule lit_hostPath_Some) simp
  next
    case 4 then show ?thesis by (rule lit_hostPath_Some) simp
  next
    case 5 then show ?thesis by (rule lit_hostPath_Some) simp
  next
    case 6 then show ?thesis by (rule hostPath_Some)
  qed
qed

lemma matchHere_None: "matchHere s = None \<Longrightarrow> shapeHere s = None"
  unfolding matchHere_flat orElse_None by (simp add: hostPath_shapeHere)

lemma matchHere_Nil: "matchHere [] = None"
  unfolding matchHere_flat orElse_None
  by (simp add: lit_def hostPath_shapeHere shapeHere_Nil)

lemma regexMatch_specVideoId: "regexMatch url = specVideoId url"
proof (induction url)
  case Nil
  show ?case by (simp add: matchHere_Nil)
next
  case (Cons c cs)
  show ?case
  proof (cases "matchHere (c # cs)")
    case None
    then show ?thesis using Cons by (simp add: orElse_def matchHere_None)
  next
    case (Some v)
    then show ?thesis using matchHere_Some [OF Some] by (simp add: orElse_def)
  qed
qed

lemma idAfter_Some_iff:
  "idAfter sh s = Some v \<longleftrightarrow> isVideoId v \<and> take (length sh + 11) s = sh @ v"
proof
  assume "idAfter sh s = Some v"
  then have a: "take (length sh) s = sh" and b: "isVideoId v" and c: "v = take 11 (drop (length sh) s)"
    by (auto simp: idAfter_def split: if_splits)
  have "take (length sh + 11) s = take (length sh) s @ take 11 (drop (length sh) s)"
    by (simp add: take_add)
  then show "isVideoId v \<and> take (length sh + 11) s = sh @ v" using a b c by simp
next
  assume h: "isVideoId v \<and> take (length sh + 11) s = sh @ v"
  then have e: "take (length sh) s @ take 11 (drop (length sh) s) = sh @ v"
    by (simp add: take_add)
  have "length (take (length sh) s) = length sh"
  proof -
    have "length sh + 11 \<le> length s"
    proof (rule ccontr)
      assume "\<not> length sh + 11 \<le> length s"
      then have "length (take (length sh + 11) s) < length sh + 11" by simp
      moreover have "length (sh @ v) = length sh + 11" using h by (simp add: isVideoId_def)
      ultimately show False using h by simp
    qed
    then show ?thesis by simp
  qed
  with e have "take (length sh) s = sh" and "take 11 (drop (length sh) s) = v" by auto
  then show "idAfter sh s = Some v" using h by (simp add: idAfter_def)
qed

lemma shapeAt_0: "shapeAt s 0 v \<longleftrightarrow> (\<exists>sh\<in>set shapes. idAfter sh s = Some v)"
  by (auto simp: shapeAt_def idAfter_Some_iff list_ex_iff)

lemma shapeHere_Some: "shapeHere s = Some v \<Longrightarrow> shapeAt s 0 v"
  unfolding shapeAt_0 shapeHere_flat orElse_Some by (auto simp: shapes_def)

lemma shapeHere_None2: "shapeHere s = None \<Longrightarrow> \<not> shapeAt s 0 v"
  unfolding shapeAt_0 shapeHere_flat orElse_None by (auto simp: shapes_def)

lemma shapeAt_Suc: "shapeAt (c # cs) (Suc n) v = shapeAt cs n v"
  by (simp add: shapeAt_def)

lemma shapeAt_Nil: "\<not> shapeAt [] n v"
  by (auto simp: shapeAt_def isVideoId_def list_ex_iff)

lemma specVideoId_None: "specVideoId url = None \<Longrightarrow> \<not> shapeAt url n v"
proof (induction url arbitrary: n)
  case Nil
  show ?case by (rule shapeAt_Nil)
next
  case (Cons c cs)
  then have h: "shapeHere (c # cs) = None" and r: "specVideoId cs = None"
    by (auto split: option.splits)
  show ?case
  proof (cases n)
    case 0
    then show ?thesis using shapeHere_None2 [OF h] by simp
  next
    case (Suc m)
    then show ?thesis using Cons.IH [OF r] by (simp add: shapeAt_Suc)
  qed
qed

lemma specVideoId_Some:
  "specVideoId url = Some v \<Longrightarrow> \<exists>n. shapeAt url n v \<and> (\<forall>m<n. \<forall>u. \<not> shapeAt url m u)"
proof (induction url)
  case Nil
  then show ?case by simp
next
  case (Cons c cs)
  show ?case
  proof (cases "shapeHere (c # cs)")
    case (Some u)
    then have "u = v" using Cons.prems by simp
    then have "shapeAt (c # cs) 0 v" using Some shapeHere_Some by blast
    then show ?thesis by (intro exI [of _ 0]) simp
  next
    case None
    then have "specVideoId cs = Some v" using Cons.prems by simp
    then obtain n where n: "shapeAt cs n v" and l: "\<forall>m<n. \<forall>u. \<not> shapeAt cs m u"
      using Cons.IH by blast
    have "\<forall>m<Suc n. \<forall>u. \<not> shapeAt (c # cs) m u"
    proof (intro allI impI)
      fix m u assume "m < Suc n"
      then show "\<not> shapeAt (c # cs) m u"
        using l shapeHere_None2 [OF None] by (cases m) (simp_all add: shapeAt_Suc)
    qed
    then show ?thesis using n by (intro exI [of _ "Suc n"]) (simp add: shapeAt_Suc)
  qed
qed

lemma addYouTube_accepts:
  assumes "get props ''url'' = JStr url" and "regexMatch url = Some v" and "v \<noteq> []"
  shows "addYouTube props w =
           Inr (addMediaItem
                  ([''type'' \<mapsto> JStr ''youtube'',
                    ''embedUrl'' \<mapsto> JStr (''https://www.youtube-nocookie.com/embed/'' @ v)]
                   ++ props) w)"
  using assms by (simp add: addYouTube_def getYouTubeEmbedUrl_def)

lemma addYouTube_rejects:
  assumes "get props ''url'' = JStr url" and "regexMatch url = None"
  shows "addYouTube props w = Inr (w\<lparr>console := console w @ [youtubeWarning url]\<rparr>)"
  using assms by (simp add: addYouTube_def getYouTubeEmbedUrl_def)

lemma youtubeItem_get:
  "get (([''type'' \<mapsto> JStr ''youtube'', ''embedUrl'' \<mapsto> e] ++ props)
          (''id'' \<mapsto> i, ''transition'' \<mapsto> t)) ''type''
     = (case props ''type'' of None \<Rightarrow> JStr ''youtube'' | Some x \<Rightarrow> x)"
  "get (([''type'' \<mapsto> JStr ''youtube'', ''embedUrl'' \<mapsto> e] ++ props)
          (''id'' \<mapsto> i, ''transition'' \<mapsto> t)) ''embedUrl''
     = (case props ''embedUrl'' of None \<Rightarrow> e | Some x \<Rightarrow> x)"
  by (simp_all add: get_def map_add_def split: option.splits)

lemma console_addMediaItem: "console (addMediaItem item w) = console w"
  by (simp add: addMediaItem_def generateId_def)

lemma sources_addMediaItem: "sources (addMediaItem item w) = sources w"
  by (simp add: addMediaItem_def generateId_def)

text \<open>
  C2. \<open>addYouTube\<close> with a string \<open>url\<close> returns without throwing. When a recognized shape
  (\<open>watch?v=\<close>, \<open>embed/\<close>, \<open>v/\<close> after \<open>youtube.com/\<close>, or \<open>youtu.be/\<close>) followed by an
  11-character video id occurs in the url, exactly one item is appended and nothing is
  written to the console; the item's \<open>type\<close> is \<open>youtube\<close> and its \<open>embedUrl\<close> is
  \<open>https://www.youtube-nocookie.com/embed/\<close> followed by the id \<open>v\<close> of the leftmost
  occurrence, except that a \<open>type\<close> or \<open>embedUrl\<close> property of \<open>props\<close> itself takes their
  place, \<open>props\<close> being spread last. When no such occurrence is anywhere in the url, the
  state is unchanged but for one warning naming the url.
\<close>

theorem addYouTube_checks_url:
  assumes "get props ''url'' = JStr url"
  shows
  "(specVideoId url = Some v \<longrightarrow>
      (\<exists>n. shapeAt url n v \<and> (\<forall>m<n. \<forall>u. \<not> shapeAt url m u))
    \<and> (\<exists>w' item. addYouTube props w = Inr w'
          \<and> mediaQueue w' = mediaQueue w @ [item]
          \<and> get item ''type'' = (case props ''type'' of None \<Rightarrow> JStr ''youtube'' | Some x \<Rightarrow> x)
          \<and> get item ''embedUrl'' =
               (case props ''embedUrl'' of
                  None \<Rightarrow> JStr (''https://www.youtube-nocookie.com/embed/'' @ v)
                | Some x \<Rightarrow> x)
          \<and> console w' = console w))
 \<and> (specVideoId url = None \<longrightarrow>
      (\<forall>n u. \<not> shapeAt url n u)
    \<and> addYouTube props w = Inr (w\<lparr>console := console w @ [youtubeWarning url]\<rparr>)
    \<and> queueOf (addYouTube props w) = mediaQueue w)"
proof (intro conjI impI)
  assume s: "specVideoId url = Some v"
  then show "\<exists>n. shapeAt url n v \<and> (\<forall>m<n. \<forall>u. \<not> shapeAt url m u)"
    by (rule specVideoId_Some)
  then have "isVideoId v" by (auto simp: shapeAt_def)
  then have "v \<noteq> []" by (auto simp: isVideoId_def)
  with s assms have a: "addYouTube props w =
           Inr (addMediaItem
                  ([''type'' \<mapsto> JStr ''youtube'',
                    ''embedUrl'' \<mapsto> JStr (''https://www.youtube-nocookie.com/embed/'' @ v)]
                   ++ props) w)"
    by (simp add: addYouTube_accepts regexMatch_specVideoId)
  show "\<exists>w' item. addYouTube props w = Inr w'
          \<and> mediaQueue w' = mediaQueue w @ [item]
          \<and> get item ''type'' = (case props ''type'' of None \<Rightarrow> JStr ''youtube'' | Some x \<Rightarrow> x)
          \<and> get item ''embedUrl'' =
               (case props ''embedUrl'' of
                  None \<Rightarrow> JStr (''https://www.youtube-nocookie.com/embed/'' @ v)
                | Some x \<Rightarrow> x)
          \<and> console w' = console w"
    unfolding a
    by (simp add: mediaQueue_addMediaItem console_addMediaItem youtubeItem_get
        split: option.splits)
next
  assume s: "specVideoId url = None"
  then show "\<forall>n u. \<not> shapeAt url n u" by (simp add: specVideoId_None)
  from s assms
  have a: "addYouTube props w = Inr (w\<lparr>console := console w @ [youtubeWarning url]\<rparr>)"
    by (simp add: addYouTube_rejects regexMatch_specVideoId)
  then show "addYouTube props w = Inr (w\<lparr>console := console w @ [youtubeWarning url]\<rparr>)" .
  show "queueOf (addYouTube props w) = mediaQueue w" by (simp add: a queueOf_def)
qed

lemma example_video_id:
  "specVideoId ''https://www.youtube.com/watch?v=dQw4w9WgXcQ'' = Some ''dQw4w9WgXcQ''"
  by code_simp

lemma example_not_url: "specVideoId ''not-a-url'' = None"
  by code_simp

theorem addYouTube_checks_url_witness:
  "(\<exists>w' item. addYouTube exampleVideo exampleRun = Inr w'
      \<and> mediaQueue w' = [item]
      \<and> get item ''type'' = JStr ''youtube''
      \<and> get item ''embedUrl'' = JStr ''https://www.youtube-nocookie.com/embed/dQw4w9WgXcQ'')
   \<and> queueOf (addYouTube exampleNotUrl exampleRun) = []
   \<and> addYouTube exampleNotUrl exampleRun
       = Inr (exampleRun\<lparr>console := [''Invalid YouTube URL provided, skipping: not-a-url'']\<rparr>)"
proof -
  have q: "mediaQueue exampleRun = []" "console exampleRun = []"
    by (simp_all add: exampleRun_def newRun_def)
  have u: "get exampleVideo ''url'' = JStr ''https://www.youtube.com/watch?v=dQw4w9WgXcQ''"
    "get exampleNotUrl ''url'' = JStr ''not-a-url''"
    "exampleVideo ''type'' = None" "exampleVideo ''embedUrl'' = None"
    by (simp_all add: exampleVideo_def exampleNotUrl_def get_def)
  note yes = addYouTube_checks_url [OF u(1), of "''dQw4w9WgXcQ''" exampleRun,
      THEN conjunct1, rule_format, OF example_video_id]
  note no = addYouTube_checks_url [OF u(2), of "[]" exampleRun,
      THEN conjunct2, rule_format, OF example_not_url]
  have "\<exists>w' item. addYouTube exampleVideo exampleRun = Inr w'
      \<and> mediaQueue w' = [item]
      \<and> get item ''type'' = JStr ''youtube''
      \<and> get item ''embedUrl'' = JStr ''https://www.youtube-nocookie.com/embed/dQw4w9WgXcQ''"
    using yes [THEN conjunct2] by (auto simp: q u)
  moreover have "queueOf (addYouTube exampleNotUrl exampleRun) = []"
    using no [THEN conjunct2, THEN conjunct2] by (simp add: q)
  moreover have "addYouTube exampleNotUrl exampleRun
       = Inr (exampleRun\<lparr>console := [''Invalid YouTube URL provided, skipping: not-a-url'']\<rparr>)"
    using no [THEN conjunct2, THEN conjunct1] by (simp add: q youtubeWarning_def)
  ultimately show ?thesis by blast
qed

text \<open>
  C2, the caller's properties come last: for a url with the video id \<open>dQw4w9WgXcQ\<close> and
  properties that carry \<open>type: "pdf"\<close> and \<open>embedUrl: "x"\<close>, the one queued item has
  type \<open>pdf\<close> and embedUrl \<open>x\<close>, not \<open>youtube\<close> and the embed url of the video.
\<close>

theorem addYouTube_props_override:
  "specVideoId ''https://www.youtube.com/watch?v=dQw4w9WgXcQ'' = Some ''dQw4w9WgXcQ''
   \<and> get exampleOverride ''url'' = JStr ''https://www.youtube.com/watch?v=dQw4w9WgXcQ''
   \<and> length (queueOf (addYouTube exampleOverride exampleRun)) = 1
   \<and> get (queueOf (addYouTube exampleOverride exampleRun) ! 0) ''type'' = JStr ''pdf''
   \<and> get (queueOf (addYouTube exampleOverride exampleRun) ! 0) ''embedUrl'' = JStr ''x''"
proof -
  have u: "get exampleOverride ''url'' = JStr ''https://www.youtube.com/watch?v=dQw4w9WgXcQ''"
    by (simp add: exampleOverride_def get_def)
  have r: "regexMatch ''https://www.youtube.com/watch?v=dQw4w9WgXcQ'' = Some ''dQw4w9WgXcQ''"
    by (simp only: regexMatch_specVideoId example_video_id)
  have q: "mediaQueue exampleRun = []" by (simp add: exampleRun_def newRun_def)
  have a: "queueOf (addYouTube exampleOverride exampleRun)
      = [([''type'' \<mapsto> JStr ''youtube'',
           ''embedUrl'' \<mapsto> JStr (''https://www.youtube-nocookie.com/embed/'' @ ''dQw4w9WgXcQ'')]
          ++ exampleOverride)
         (''id'' \<mapsto> JStr (fst (generateId exampleRun)),
          ''transition'' \<mapsto>
            js_or (get ([''type'' \<mapsto> JStr ''youtube'',
                         ''embedUrl'' \<mapsto> JStr (''https://www.youtube-nocookie.com/embed/'' @ ''dQw4w9WgXcQ'')]
                        ++ exampleOverride) ''transition'') (JStr ''fade''))]"
    unfolding addYouTube_accepts [OF u r, of exampleRun, simplified]
    by (simp add: queueOf_def mediaQueue_addMediaItem q)
  have "get (queueOf (addYouTube exampleOverride exampleRun) ! 0) ''type'' = JStr ''pdf''"
    unfolding a by (simp add: exampleOverride_def get_def)
  moreover have "get (queueOf (addYouTube exampleOverride exampleRun) ! 0) ''embedUrl'' = JStr ''x''"
    unfolding a by (simp add: exampleOverride_def get_def)
  moreover have "length (queueOf (addYouTube exampleOverride exampleRun)) = 1"
    unfolding a by simp
  ultimately show ?thesis using u example_video_id by simp
qed

section \<open>Properties of the element builders\<close>

lemma slides_addElement:
  "slides (addElement e a w) a = appended w a e"
  by (simp add: addElement_def appended_def)

lemma slides_generateId [simp]: "slides (snd (generateId w)) = slides w"
  by (simp add: generateId_def)

lemma text_element:
  "([''content'' \<mapsto> JStr ''New Text'',
     ''x'' \<mapsto> num 10, ''y'' \<mapsto> num 10, ''width'' \<mapsto> num 300, ''height'' \<mapsto> num 50,
     ''fontSize'' \<mapsto> num 24, ''color'' \<mapsto> JStr ''#000000'',
     ''fontFamily'' \<mapsto> JStr ''Alegreya'', ''animation'' \<mapsto> JStr ''none''] ++ props)
      (''id'' \<mapsto> JStr i, ''type'' \<mapsto> JStr ''text'')
   = specElement ''text'' (specDefaults ''text'') i props"
  by (rule ext) (simp add: specElement_def specDefaults_def map_add_def split: option.splits)

lemma addText_element:
  "slides (addText props a w) a =
     appended w a (specElement ''text'' (specDefaults ''text'') (fst (generateId w)) props)"
  by (simp add: addText_def Let_def split_def slides_addElement appended_def text_element)


lemma image_element:
  "([''src'' \<mapsto> JStr ''https://placehold.co/300x200.png'',
     ''x'' \<mapsto> num 10, ''y'' \<mapsto> num 10, ''width'' \<mapsto> num 300, ''height'' \<mapsto> num 200] ++ props)
      (''id'' \<mapsto> JStr i, ''type'' \<mapsto> JStr ''image'')
   = specElement ''image'' (specDefaults ''image'') i props"
  by (rule ext) (simp add: specElement_def specDefaults_def map_add_def split: option.splits)

lemma math_element:
  "([''content'' \<mapsto> JStr ''E = mc^2'',
     ''x'' \<mapsto> num 10, ''y'' \<mapsto> num 10, ''width'' \<mapsto> num 200, ''height'' \<mapsto> num 60,
     ''fontSize'' \<mapsto> num 24, ''color'' \<mapsto> JStr ''#000000''] ++ props)
      (''id'' \<mapsto> JStr i, ''type'' \<mapsto> JStr ''math'')
   = specElement ''math'' (specDefaults ''math'') i props"
  by (rule ext) (simp add: specElement_def specDefaults_def map_add_def split: option.splits)

lemma shape_element:
  "([''shape'' \<mapsto> JStr ''rectangle'',
     ''x'' \<mapsto> num 10, ''y'' \<mapsto> num 10, ''width'' \<mapsto> num 150, ''height'' \<mapsto> num 100,
     ''strokeColor'' \<mapsto> JStr ''#000000'', ''strokeWidth'' \<mapsto> num 2,
     ''fillColor'' \<mapsto> JStr ''transparent''] ++ props)
      (''id'' \<mapsto> JStr i, ''type'' \<mapsto> JStr ''shape'')
   = specElement ''shape'' (specDefaults ''shape'') i props"
  by (rule ext) (simp add: specElement_def specDefaults_def map_add_def split: option.splits)

lemma hello_action:
  "JObj [''id'' \<mapsto> JStr i, ''type'' \<mapsto> JStr ''text'', ''text'' \<mapsto> JStr ''Hello!''] = specHelloAction i"
proof -
  have "[''id'' \<mapsto> JStr i, ''type'' \<mapsto> JStr ''text'', ''text'' \<mapsto> JStr ''Hello!'']
        = map_of [(''id'', JStr i), (''type'', JStr ''text''), (''text'', JStr ''Hello!'')]"
    by (rule ext) simp
  then show ?thesis by (simp add: specHelloAction_def)
qed

lemma character_element:
  "([''character'' \<mapsto> JStr ''char1'',
     ''x'' \<mapsto> num 50, ''y'' \<mapsto> num 350, ''width'' \<mapsto> num 150, ''height'' \<mapsto> num 200,
     ''actions'' \<mapsto> JArr [act]] ++ props)
      (''id'' \<mapsto> JStr i, ''type'' \<mapsto> JStr ''gamification'')
   = specElement ''gamification'' (specDefaults ''gamification'' @ [(''actions'', JArr [act])]) i props"
  by (rule ext) (simp add: specElement_def specDefaults_def map_add_def split: option.splits)

lemma sticker_element:
  "[''id'' \<mapsto> JStr i, ''type'' \<mapsto> JStr ''sticker'', ''content'' \<mapsto> c,
    ''x'' \<mapsto> x, ''y'' \<mapsto> y, ''width'' \<mapsto> s, ''height'' \<mapsto> s,
    ''fontSize'' \<mapsto> s, ''rotation'' \<mapsto> r]
   = map_of [(''id'', JStr i), (''type'', JStr ''sticker''), (''content'', c), (''x'', x), (''y'', y),
             (''width'', s), (''height'', s), (''fontSize'', s), (''rotation'', r)]"
  by (rule ext) simp

lemma addImage_element:
  "slides (addImage props a w) a =
     appended w a (specElement ''image'' (specDefaults ''image'') (fst (generateId w)) props)"
  by (simp add: addImage_def Let_def split_def slides_addElement appended_def image_element)

lemma addMath_element:
  "slides (addMath props a w) a =
     appended w a (specElement ''math'' (specDefaults ''math'') (fst (generateId w)) props)"
  by (simp add: addMath_def Let_def split_def slides_addElement appended_def math_element)

lemma addShape_element:
  "slides (addShape props a w) a =
     appended w a (specElement ''shape'' (specDefaults ''shape'') (fst (generateId w)) props)"
  by (simp add: addShape_def Let_def split_def slides_addElement appended_def shape_element)

lemma addSticker_element:
  "slides (addSticker props a w) a = appended w a (specSticker (fst (generateId w)) props)"
  by (simp add: addSticker_def Let_def split_def slides_addElement appended_def sticker_element
      specSticker_def orDefault_def)

lemma addCharacter_element:
  "slides (addCharacter props a w) a =
     appended w a
       (specElement ''gamification''
          (specDefaults ''gamification''
             @ [(''actions'', JArr [specHelloAction (fst (generateId w))])])
          (fst (generateId (snd (generateId w)))) props)"
  by (simp add: addCharacter_def Let_def split_def slides_addElement appended_def
      character_element hello_action)

text \<open>
  C6. Every element builder appends one element to the slide. For \<open>addText\<close>,
  \<open>addImage\<close>, \<open>addMath\<close>, \<open>addShape\<close> and \<open>addCharacter\<close> and every property object
  \<open>props\<close>, the element's \<open>id\<close> is the freshly generated identifier and its \<open>type\<close> is
  the builder's discriminant, whatever \<open>props\<close> holds under \<open>id\<close> and \<open>type\<close>; every other
  field is the one of \<open>props\<close> where \<open>props\<close> has it and the default of the table
  otherwise. For \<open>addSticker\<close> the size defaults to 100 and is copied into width, height
  and fontSize, and the rotation defaults to 0.
\<close>

theorem element_defaults:
  "slides (addText props a w) a =
     appended w a (specElement ''text'' (specDefaults ''text'') (fst (generateId w)) props)
   \<and> slides (addImage props a w) a =
     appended w a (specElement ''image'' (specDefaults ''image'') (fst (generateId w)) props)
   \<and> slides (addMath props a w) a =
     appended w a (specElement ''math'' (specDefaults ''math'') (fst (generateId w)) props)
   \<and> slides (addShape props a w) a =
     appended w a (specElement ''shape'' (specDefaults ''shape'') (fst (generateId w)) props)
   \<and> slides (addSticker props a w) a = appended w a (specSticker (fst (generateId w)) props)
   \<and> slides (addCharacter props a w) a =
     appended w a
       (specElement ''gamification''
          (specDefaults ''gamification''
             @ [(''actions'', JArr [specHelloAction (fst (generateId w))])])
          (fst (generateId (snd (generateId w)))) props)"
  by (simp only: addText_element addImage_element addMath_element addShape_element
      addSticker_element addCharacter_element simp_thms)

section \<open>Properties of setBorder\<close>

lemma slides_setSlideProp:
  "slides (setSlideProp k v a w) a = (slides w a)(k \<mapsto> v)"
  by (simp add: setSlideProp_def)

lemma setBorder_slide:
  "slides (setBorder p a w) a =
     (\<lambda>k. if k = ''borderStyle'' then Some (JStr (bp_style p))
          else if k = ''borderColor'' then
            (case bp_color p of
               Some c \<Rightarrow> if c \<noteq> [] then Some (JStr c) else slides w a ''borderColor''
             | None \<Rightarrow> slides w a ''borderColor'')
          else if k = ''borderWidth'' then
            (case bp_width p of
               Some n \<Rightarrow> if n \<noteq> Finite 0 \<and> n \<noteq> NaN then Some (JNum n) else slides w a ''borderWidth''
             | None \<Rightarrow> slides w a ''borderWidth'')
          else slides w a k)"
  by (rule ext)
    (simp add: setBorder_def Let_def slides_setSlideProp optStr_def optNum_def split: option.splits)

lemma setBorders_snoc: "setBorders (ps @ [p]) a w = setBorder p a (setBorders ps a w)"
  by (simp add: setBorders_def)

lemma setBorders_slide:
  "slides (setBorders ps a w) a ''borderStyle'' =
      (if ps = [] then slides w a ''borderStyle'' else Some (JStr (bp_style (last ps))))
   \<and> slides (setBorders ps a w) a ''borderColor'' =
      (if effectiveColors ps = [] then slides w a ''borderColor''
       else Some (JStr (last (effectiveColors ps))))
   \<and> slides (setBorders ps a w) a ''borderWidth'' =
      (if effectiveWidths ps = [] then slides w a ''borderWidth''
       else Some (JNum (last (effectiveWidths ps))))"
proof (induction ps rule: rev_induct)
  case Nil
  show ?case by (simp add: setBorders_def effectiveColors_def effectiveWidths_def)
next
  case (snoc p ps)
  then show ?case
    by (simp add: setBorders_snoc setBorder_slide effectiveColors_def effectiveWidths_def
        split: option.splits)
qed

lemma newSlide_slide:
  "newSlide title bg w = (a, w1) \<Longrightarrow>
     slides w1 a ''borderStyle'' = Some (JStr ''none'')
     \<and> slides w1 a ''borderColor'' = None \<and> slides w1 a ''borderWidth'' = None"
  by (auto simp: newSlide_def Let_def split_def)

text \<open>
  C7. A call of \<open>setBorder\<close> sets the border style to its \<open>style\<close> argument. It
  overwrites the border color when the call provides a non-empty color, and the border
  width when the call provides a width other than 0 and \<open>NaN\<close>; otherwise the field keeps
  what it had, and stays absent if it was absent. After a sequence of calls the style
  is that of the last call, and color and width are the last effective ones of the
  sequence, or the initial ones. On a new slide, \<open>setBorder({style: "solid"})\<close> followed
  by \<open>setBorder({style: "ants"})\<close> leaves style \<open>ants\<close> and no color and no width.
\<close>

theorem setBorder_overwrites:
  "slides (setBorder p a w) a ''borderStyle'' = Some (JStr (bp_style p))
   \<and> slides (setBorder p a w) a ''borderColor'' =
       (case bp_color p of
          Some c \<Rightarrow> if c \<noteq> [] then Some (JStr c) else slides w a ''borderColor''
        | None \<Rightarrow> slides w a ''borderColor'')
   \<and> slides (setBorder p a w) a ''borderWidth'' =
       (case bp_width p of
          Some n \<Rightarrow> if n \<noteq> Finite 0 \<and> n \<noteq> NaN then Some (JNum n) else slides w a ''borderWidth''
        | None \<Rightarrow> slides w a ''borderWidth'')
   \<and> (ps \<noteq> [] \<longrightarrow>
        slides (setBorders ps a w) a ''borderStyle'' = Some (JStr (bp_style (last ps))))
   \<and> slides (setBorders ps a w) a ''borderColor'' =
        (if effectiveColors ps = [] then slides w a ''borderColor''
         else Some (JStr (last (effectiveColors ps))))
   \<and> slides (setBorders ps a w) a ''borderWidth'' =
        (if effectiveWidths ps = [] then slides w a ''borderWidth''
         else Some (JNum (last (effectiveWidths ps))))
   \<and> (newSlide title bg w = (b, w1) \<longrightarrow>
        slides (setBorders [exampleSolid, exampleAnts] b w1) b ''borderStyle'' = Some (JStr ''ants'')
      \<and> slides (setBorders [exampleSolid, exampleAnts] b w1) b ''borderColor'' = None
      \<and> slides (setBorders [exampleSolid, exampleAnts] b w1) b ''borderWidth'' = None)"
proof -
  have e: "effectiveColors [exampleSolid, exampleAnts] = []"
    "effectiveWidths [exampleSolid, exampleAnts] = []"
    "last [exampleSolid, exampleAnts] = exampleAnts" "bp_style exampleAnts = ''ants''"
    by (simp_all add: effectiveColors_def effectiveWidths_def exampleSolid_def exampleAnts_def)
  have "newSlide title bg w = (b, w1) \<longrightarrow>
        slides (setBorders [exampleSolid, exampleAnts] b w1) b ''borderStyle'' = Some (JStr ''ants'')
      \<and> slides (setBorders [exampleSolid, exampleAnts] b w1) b ''borderColor'' = None
      \<and> slides (setBorders [exampleSolid, exampleAnts] b w1) b ''borderWidth'' = None"
    using setBorders_slide [of "[exampleSolid, exampleAnts]" b w1] newSlide_slide [of title bg w b w1]
    by (simp add: e)
  then show ?thesis
    using setBorders_slide [of ps a w] by (simp add: setBorder_slide)
qed

lemma exampleSlideRun_new: "newSlide ''Title Slide'' None exampleRun = (0, exampleSlideRun)"
  by (simp add: exampleSlideRun_def newSlide_def Let_def split_def generateId_def exampleRun_def newRun_def)

theorem setBorder_overwrites_witness:
  "slides (setBorders [exampleSolid, exampleAnts] 0 exampleSlideRun) 0 ''borderStyle'' = Some (JStr ''ants'')
   \<and> slides (setBorders [exampleSolid, exampleAnts] 0 exampleSlideRun) 0 ''borderColor'' = None
   \<and> slides (setBorders [exampleSolid, exampleAnts] 0 exampleSlideRun) 0 ''borderWidth'' = None"
  using setBorder_overwrites [of exampleSolid 0 exampleRun "[exampleSolid, exampleAnts]"
      "''Title Slide''" None 0 exampleSlideRun]
  by (simp add: exampleSlideRun_new)

text \<open>
  C7, a provided value that is not stored: after \<open>setBorder({style: "solid", width: 5})\<close>
  the call \<open>setBorder({style: "solid", width: 0})\<close> provides the width 0, and the border
  width of the slide is still 5.
\<close>

theorem setBorder_keeps_width_on_zero:
  "bp_width exampleWidth0 = Some (Finite 0)
   \<and> get (slides (setBorder exampleWidth0 0 (setBorder exampleWidth5 0 exampleSlideRun)) 0) ''borderWidth''
       = JNum (Finite 5)
   \<and> get (slides (setBorder exampleWidth0 0 (setBorder exampleWidth5 0 exampleSlideRun)) 0) ''borderWidth''
       \<noteq> JNum (Finite 0)"
  by (simp add: setBorder_slide get_def exampleWidth0_def exampleWidth5_def)

section \<open>Properties of addSlide and addQuiz\<close>

lemma mediaQueue_generateId [simp]: "mediaQueue (snd (generateId w)) = mediaQueue w"
  by (simp add: generateId_def)

lemma mediaQueue_addElement [simp]: "mediaQueue (addElement e a w) = mediaQueue w"
  by (simp add: addElement_def)

lemma mediaQueue_setSlideProp [simp]: "mediaQueue (setSlideProp k v a w) = mediaQueue w"
  by (simp add: setSlideProp_def)

lemma mediaQueue_call: "mediaQueue (call a w c) = mediaQueue w"
  by (cases c)
    (simp_all add: addText_def addImage_def addSticker_def addMath_def addShape_def
      addCharacter_def setBackgroundColor_def setBackgroundImageUrl_def setBorder_def
      Let_def split_def)

lemma mediaQueue_calls: "mediaQueue (calls a cs w) = mediaQueue w"
  unfolding calls_def by (induction cs arbitrary: w) (simp_all add: mediaQueue_call)

lemma slides_addMediaItem: "slides (addMediaItem item w) = slides w"
  by (simp add: addMediaItem_def generateId_def)

lemma addSlide_item:
  "\<exists>item. mediaQueue (addSlide a w) = mediaQueue w @ [item]
     \<and> get item ''type'' = JStr ''created-slide''
     \<and> get item ''name'' = get (slides w a) ''title''
     \<and> get item ''slide'' = JRef a"
  by (simp add: addSlide_def mediaQueue_addMediaItem get_def getSlideObject_def)

text \<open>
  C1. \<open>addSlide\<close> appends one item of type created-slide whose \<open>name\<close> is the slide's
  title and whose \<open>slide\<close> is the slide's internal object itself, not a copy; the store
  of slide objects is left as it is. Whatever calls are made on the slide afterwards,
  the queue still holds that same item, and what a reader finds under its \<open>slide\<close> is
  the slide object as those calls have left it: after \<open>setBackgroundColor\<close> it has the
  new background color, after \<open>addText\<close> it has the new text element at the end of its
  elements.
\<close>

theorem addSlide_queues_reference:
  "\<exists>item. mediaQueue (addSlide a w) = mediaQueue w @ [item]
     \<and> get item ''type'' = JStr ''created-slide''
     \<and> get item ''name'' = get (slides w a) ''title''
     \<and> get item ''slide'' = JRef a
     \<and> slides (addSlide a w) = slides w
     \<and> mediaQueue (calls a cs (addSlide a w)) = mediaQueue w @ [item]
     \<and> deref (calls a cs (addSlide a w)) (get item ''slide'')
         = JObj (slides (calls a cs (addSlide a w)) a)
     \<and> deref (setBackgroundColor color a (addSlide a w)) (get item ''slide'')
         = JObj ((slides w a)(''backgroundColor'' \<mapsto> JStr color))
     \<and> deref (addText props a (addSlide a w)) (get item ''slide'')
         = JObj ((slides w a)(''elements'' \<mapsto> JArr (elementsOf (slides w a) @
              [JObj (specElement ''text'' (specDefaults ''text'')
                       (fst (generateId (addSlide a w))) props)])))"
proof -
  obtain item where i: "mediaQueue (addSlide a w) = mediaQueue w @ [item]"
     "get item ''type'' = JStr ''created-slide''"
     "get item ''name'' = get (slides w a) ''title''"
     "get item ''slide'' = JRef a"
    using addSlide_item by blast
  have s: "slides (addSlide a w) = slides w"
    by (simp add: addSlide_def slides_addMediaItem)
  have "mediaQueue (calls a cs (addSlide a w)) = mediaQueue w @ [item]"
    by (simp add: mediaQueue_calls i)
  moreover have "deref (calls a cs (addSlide a w)) (get item ''slide'')
         = JObj (slides (calls a cs (addSlide a w)) a)"
    by (simp add: i deref_def)
  moreover have "deref (setBackgroundColor color a (addSlide a w)) (get item ''slide'')
         = JObj ((slides w a)(''backgroundColor'' \<mapsto> JStr color))"
    by (simp add: i deref_def setBackgroundColor_def slides_setSlideProp s)
  moreover have "deref (addText props a (addSlide a w)) (get item ''slide'')
         = JObj ((slides w a)(''elements'' \<mapsto> JArr (elementsOf (slides w a) @
              [JObj (specElement ''text'' (specDefaults ''text'')
                       (fst (generateId (addSlide a w))) props)])))"
    by (simp add: i deref_def addText_element appended_def s)
  ultimately show ?thesis using i s by blast
qed

lemma elementsOf_update: "elementsOf (ob(''elements'' \<mapsto> JArr es)) = es"
  by (simp add: elementsOf_def get_def)

lemma exampleSlideRun_elements: "slides exampleSlideRun 0 ''elements'' = Some (JArr [])"
  by (simp add: exampleSlideRun_def newSlide_def Let_def split_def generateId_def exampleRun_def newRun_def)

lemma exampleQueued_slides: "slides exampleQueued a = slides exampleSlideRun a"
  by (simp add: exampleQueued_def addSlide_def slides_addMediaItem)

lemma exampleQueued_queue:
  "get (mediaQueue exampleQueued ! 0) ''slide'' = JRef 0"
proof -
  have "mediaQueue exampleSlideRun = []"
    by (simp add: exampleSlideRun_def newSlide_def Let_def split_def generateId_def exampleRun_def newRun_def)
  then show ?thesis
    by (simp add: exampleQueued_def addSlide_def mediaQueue_addMediaItem get_def getSlideObject_def)
qed

lemma exampleMutated_queue: "mediaQueue exampleMutated = mediaQueue exampleQueued"
  using mediaQueue_call [of 0 exampleQueued "AddText Map.empty"] by (simp add: exampleMutated_def)

text \<open>
  C1, no snapshot is taken: a slide is created and added to the presentation, then
  \<open>addText\<close> is called on it. The queue is the same list of items, the slide had no
  element when it was added, and the slide found under the queued item now has one.
\<close>

theorem addSlide_not_a_snapshot:
  "mediaQueue exampleMutated = mediaQueue exampleQueued
   \<and> elementsOf (slides exampleQueued 0) = []
   \<and> length (elementsOf (slides exampleMutated 0)) = 1
   \<and> deref exampleMutated (get (mediaQueue exampleMutated ! 0) ''slide'')
       \<noteq> deref exampleQueued (get (mediaQueue exampleQueued ! 0) ''slide'')"
proof -
  have a: "elementsOf (slides exampleQueued 0) = []"
    by (simp add: exampleQueued_slides elementsOf_def get_def exampleSlideRun_elements)
  have b: "length (elementsOf (slides exampleMutated 0)) = 1"
    unfolding exampleMutated_def addText_element appended_def
    by (simp add: elementsOf_update a)
  have "slides exampleMutated 0 \<noteq> slides exampleQueued 0"
    using a b by auto
  then have "deref exampleMutated (get (mediaQueue exampleMutated ! 0) ''slide'')
       \<noteq> deref exampleQueued (get (mediaQueue exampleQueued ! 0) ''slide'')"
    by (simp add: exampleMutated_queue exampleQueued_queue deref_def)
  then show ?thesis using a b exampleMutated_queue by simp
qed

text \<open>
  C4. \<open>addQuiz\<close> appends one item of type quiz whose \<open>name\<close> is the quiz title and whose
  \<open>quiz\<close> is the input with \<open>id\<close> set to a freshly generated identifier; every other
  property of the input, \<open>questions\<close> included, is carried over as it is.
\<close>

theorem addQuiz_keeps_questions:
  "\<exists>item. mediaQueue (addQuiz quizData w) = mediaQueue w @ [item]
     \<and> get item ''type'' = JStr ''quiz''
     \<and> get item ''name'' = get quizData ''title''
     \<and> get item ''quiz'' = JObj (quizData(''id'' \<mapsto> JStr (fst (generateId w))))
     \<and> get (quizOf item) ''id'' = JStr (fst (generateId w))
     \<and> get (quizOf item) ''title'' = get quizData ''title''
     \<and> get (quizOf item) ''questions'' = get quizData ''questions''"
  by (simp add: addQuiz_def Let_def split_def mediaQueue_addMediaItem get_def quizOf_def)

text \<open>
  C4, questions and options get no identifier: for the quiz of the README the queued
  quiz holds the input question, which has no \<open>id\<close>, with its two options, which have
  none either.
\<close>

theorem addQuiz_assigns_no_question_id:
  "get (quizOf (mediaQueue (addQuiz exampleQuiz exampleRun) ! 0)) ''questions''
     = JArr [JObj exampleQuestion]
   \<and> exampleQuestion ''id'' = None
   \<and> get exampleQuestion ''options'' = JArr [JObj exampleOptionYes, JObj exampleOptionAbsolutely]
   \<and> exampleOptionYes ''id'' = None
   \<and> exampleOptionAbsolutely ''id'' = None"
proof -
  have q: "mediaQueue exampleRun = []" by (simp add: exampleRun_def newRun_def)
  have "get (quizOf (mediaQueue (addQuiz exampleQuiz exampleRun) ! 0)) ''questions''
     = JArr [JObj exampleQuestion]"
    by (simp add: addQuiz_def Let_def split_def mediaQueue_addMediaItem get_def quizOf_def q
        exampleQuiz_def)
  then show ?thesis
    by (simp add: exampleQuestion_def exampleOptionYes_def exampleOptionAbsolutely_def get_def)
qed

section \<open>Properties of generateId\<close>

lemma digit36_alphabet: "d < 36 \<Longrightarrow> digit36 d \<in> set alphabet36"
  by (simp add: digit36_def alphabet36_def del: set_simps)

lemma toString36_alphabet: "set (toString36 n) \<subseteq> set alphabet36"
proof (induction n rule: toString36.induct)
  case (1 n)
  show ?case
  proof (cases "n < 36")
    case True
    then show ?thesis
      using digit36_alphabet [of n] by (subst toString36.simps) simp
  next
    case False
    then show ?thesis
      using 1 digit36_alphabet [of "n mod 36"] by (subst toString36.simps) simp
  qed
qed

lemma toString36_no_dash: "CHR ''-'' \<notin> set (toString36 n)"
proof -
  have "CHR ''-'' \<notin> set alphabet36" by (simp add: alphabet36_def)
  then show ?thesis using toString36_alphabet by blast
qed

lemma toString36_nonempty: "toString36 n \<noteq> []"
  by (subst toString36.simps) simp

lemma digit36_inj: "a < 36 \<Longrightarrow> b < 36 \<Longrightarrow> digit36 a = digit36 b \<Longrightarrow> a = b"
proof -
  assume a: "a < 36" and b: "b < 36" and e: "digit36 a = digit36 b"
  have d: "distinct ''0123456789abcdefghijklmnopqrstuvwxyz''" by simp
  have l: "length ''0123456789abcdefghijklmnopqrstuvwxyz'' = 36" by simp
  from e show "a = b"
    unfolding digit36_def using nth_eq_iff_index_eq [OF d, of a b] a b l by simp
qed

lemma toString36_inj: "toString36 n = toString36 m \<Longrightarrow> n = m"
proof (induction n arbitrary: m rule: toString36.induct)
  case (1 n)
  show ?case
  proof (cases "n < 36")
    case True
    then have n: "toString36 n = [digit36 n]" by (subst toString36.simps) simp
    show ?thesis
    proof (cases "m < 36")
      case m: True
      then have "toString36 m = [digit36 m]" by (subst toString36.simps) simp
      then show ?thesis using n "1.prems" True m digit36_inj by simp
    next
      case m: False
      then have "toString36 m = toString36 (m div 36) @ [digit36 (m mod 36)]"
        by (subst toString36.simps) simp
      then show ?thesis using n "1.prems" toString36_nonempty [of "m div 36"] by simp
    qed
  next
    case False
    then have n: "toString36 n = toString36 (n div 36) @ [digit36 (n mod 36)]"
      by (subst toString36.simps) simp
    show ?thesis
    proof (cases "m < 36")
      case m: True
      then have "toString36 m = [digit36 m]" by (subst toString36.simps) simp
      then show ?thesis using n "1.prems" toString36_nonempty [of "n div 36"] by simp
    next
      case m: False
      then have "toString36 m = toString36 (m div 36) @ [digit36 (m mod 36)]"
        by (subst toString36.simps) simp
      with n "1.prems" have e: "toString36 (n div 36) = toString36 (m div 36)"
        and d: "digit36 (n mod 36) = digit36 (m mod 36)" by simp_all
      have "n div 36 = m div 36" using "1.IH" [OF False e] .
      moreover have "n mod 36 = m mod 36" using d digit36_inj [of "n mod 36" "m mod 36"] by simp
      ultimately show ?thesis by (metis div_mult_mod_eq)
    qed
  qed
qed

lemma split_at_dash:
  "CHR ''-'' \<notin> set a \<Longrightarrow> CHR ''-'' \<notin> set b \<Longrightarrow> a @ CHR ''-'' # x = b @ CHR ''-'' # y
     \<Longrightarrow> a = b \<and> x = y"
proof (induction a arbitrary: b)
  case Nil
  then show ?case by (cases b) auto
next
  case (Cons c a)
  then show ?case by (cases b) auto
qed

lemma generateId_eq_iff:
  "fst (generateId w) = fst (generateId w') \<longleftrightarrow>
     clock w (reads w) = clock w' (reads w')
     \<and> substr 2 9 (random w (reads w)) = substr 2 9 (random w' (reads w'))"
proof
  assume "fst (generateId w) = fst (generateId w')"
  then have "toString36 (clock w (reads w)) @ CHR ''-'' # substr 2 9 (random w (reads w))
           = toString36 (clock w' (reads w')) @ CHR ''-'' # substr 2 9 (random w' (reads w'))"
    by (simp add: generateId_def)
  then have "toString36 (clock w (reads w)) = toString36 (clock w' (reads w'))
           \<and> substr 2 9 (random w (reads w)) = substr 2 9 (random w' (reads w'))"
    using split_at_dash toString36_no_dash by blast
  then show "clock w (reads w) = clock w' (reads w')
     \<and> substr 2 9 (random w (reads w)) = substr 2 9 (random w' (reads w'))"
    using toString36_inj by blast
next
  assume "clock w (reads w) = clock w' (reads w')
     \<and> substr 2 9 (random w (reads w)) = substr 2 9 (random w' (reads w'))"
  then show "fst (generateId w) = fst (generateId w')" by (simp add: generateId_def)
qed

text \<open>
  C8. An identifier is never the empty string, every call of \<open>generateId\<close> takes the
  next reading of the clock and of the random source, and two identifiers are equal
  exactly when they were made from the same clock reading and the same nine characters
  of the random text: identifiers are distinct whenever the clock or those characters
  differ. The identifier of a queued media item, of a listed source and of a new slide
  is the one \<open>generateId\<close> yields at the call.
\<close>

theorem generateId_distinct_when_sources_differ:
  "fst (generateId w) \<noteq> []
   \<and> reads (snd (generateId w)) = Suc (reads w)
   \<and> (fst (generateId w) = fst (generateId w') \<longleftrightarrow>
        clock w (reads w) = clock w' (reads w')
        \<and> substr 2 9 (random w (reads w)) = substr 2 9 (random w' (reads w')))
   \<and> (\<exists>queued. mediaQueue (addMediaItem item w) = mediaQueue w @ [queued]
         \<and> get queued ''id'' = JStr (fst (generateId w)))
   \<and> (\<exists>listed. sources (addSource source w) = sources w @ [listed]
         \<and> get listed ''id'' = JStr (fst (generateId w)))
   \<and> get (slides (snd (newSlide title bg w)) (fst (newSlide title bg w))) ''id''
        = JStr (fst (generateId w))"
proof -
  have "\<exists>queued. mediaQueue (addMediaItem item w) = mediaQueue w @ [queued]
         \<and> get queued ''id'' = JStr (fst (generateId w))"
    by (simp add: mediaQueue_addMediaItem get_def)
  moreover have "\<exists>listed. sources (addSource source w) = sources w @ [listed]
         \<and> get listed ''id'' = JStr (fst (generateId w))"
    by (simp add: addSource_def Let_def split_def generateId_def get_def)
  moreover have "get (slides (snd (newSlide title bg w)) (fst (newSlide title bg w))) ''id''
        = JStr (fst (generateId w))"
    by (simp add: newSlide_def Let_def split_def get_def)
  moreover have "fst (generateId w) \<noteq> []" by (simp add: generateId_def)
  moreover have "reads (snd (generateId w)) = Suc (reads w)" by (simp add: generateId_def)
  ultimately show ?thesis using generateId_eq_iff [of w w'] by blast
qed

lemma example_id: "toString36 1730000000000 = ''m2r1bz7k''"
  by (simp add: toString36.simps digit36_def)

lemma example_generateId:
  "clock w = (\<lambda>k. 1730000000000) \<Longrightarrow> random w = (\<lambda>k. ''0.4fzyo82mvyr'')
     \<Longrightarrow> fst (generateId w) = ''m2r1bz7k-4fzyo82mv''"
  by (simp add: generateId_def example_id substr_def)

lemma clock_addMediaItem: "clock (addMediaItem item w) = clock w"
  by (simp add: addMediaItem_def generateId_def)

lemma random_addMediaItem: "random (addMediaItem item w) = random w"
  by (simp add: addMediaItem_def generateId_def)

text \<open>
  C8, identifiers can repeat: when the clock shows the same millisecond and the random
  source yields the same text for two calls of \<open>addMediaItem\<close>, both queued items get
  the same identifier.
\<close>

theorem identifiers_can_repeat:
  "get (mediaQueue (addMediaItem exampleItem (addMediaItem exampleItem exampleRun)) ! 0) ''id''
     = JStr ''m2r1bz7k-4fzyo82mv''
   \<and> get (mediaQueue (addMediaItem exampleItem (addMediaItem exampleItem exampleRun)) ! 1) ''id''
     = JStr ''m2r1bz7k-4fzyo82mv''"
proof -
  have c: "clock exampleRun = (\<lambda>k. 1730000000000)" "random exampleRun = (\<lambda>k. ''0.4fzyo82mvyr'')"
    by (simp_all add: exampleRun_def newRun_def)
  have g1: "fst (generateId exampleRun) = ''m2r1bz7k-4fzyo82mv''"
    using c by (rule example_generateId)
  have g2: "fst (generateId (addMediaItem exampleItem exampleRun)) = ''m2r1bz7k-4fzyo82mv''"
    by (rule example_generateId) (simp_all only: clock_addMediaItem random_addMediaItem c)
  have q: "mediaQueue exampleRun = []" by (simp add: exampleRun_def newRun_def)
  have m: "mediaQueue (addMediaItem exampleItem (addMediaItem exampleItem exampleRun))
      = [exampleItem(''id'' \<mapsto> JStr ''m2r1bz7k-4fzyo82mv'',
                     ''transition'' \<mapsto> js_or (get exampleItem ''transition'') (JStr ''fade'')),
         exampleItem(''id'' \<mapsto> JStr ''m2r1bz7k-4fzyo82mv'',
                     ''transition'' \<mapsto> js_or (get exampleItem ''transition'') (JStr ''fade''))]"
    by (simp only: mediaQueue_addMediaItem g1 g2 q append.simps)
  show ?thesis
    unfolding m by (simp add: get_def)
qed

section \<open>The element builders on example inputs\<close>

theorem element_defaults_witness:
  "(\<exists>e. elementsOf (slides (addText exampleTextProps 0 exampleSlideRun) 0) = [JObj e]
      \<and> get e ''id'' = JStr ''m2r1bz7k-4fzyo82mv''
      \<and> get e ''type'' = JStr ''text''
      \<and> get e ''x'' = num 7
      \<and> get e ''y'' = num 10
      \<and> get e ''width'' = num 300
      \<and> get e ''height'' = num 50
      \<and> get e ''content'' = JStr ''New Text''
      \<and> get e ''fontSize'' = num 24
      \<and> get e ''color'' = JStr ''#000000''
      \<and> get e ''fontFamily'' = JStr ''Alegreya''
      \<and> get e ''animation'' = JStr ''none'')
   \<and> (\<exists>e. elementsOf (slides (addSticker Map.empty 0 exampleSlideRun) 0) = [JObj e]
      \<and> get e ''type'' = JStr ''sticker''
      \<and> get e ''width'' = num 100
      \<and> get e ''height'' = num 100
      \<and> get e ''fontSize'' = num 100
      \<and> get e ''rotation'' = num 0)"
proof -
  have c: "clock exampleSlideRun = (\<lambda>k. 1730000000000)"
    "random exampleSlideRun = (\<lambda>k. ''0.4fzyo82mvyr'')"
    by (simp_all add: exampleSlideRun_def newSlide_def Let_def split_def generateId_def
        exampleRun_def newRun_def)
  have g: "fst (generateId exampleSlideRun) = ''m2r1bz7k-4fzyo82mv''"
    using c by (rule example_generateId)
  have e: "elementsOf (slides exampleSlideRun 0) = []"
    by (simp add: elementsOf_def get_def exampleSlideRun_elements)
  note d = element_defaults [of exampleTextProps 0 exampleSlideRun]
  note t = d [THEN conjunct1]
  note s = element_defaults [of Map.empty 0 exampleSlideRun,
      THEN conjunct2, THEN conjunct2, THEN conjunct2, THEN conjunct2, THEN conjunct1]
  have "elementsOf (slides (addText exampleTextProps 0 exampleSlideRun) 0)
      = [JObj (specElement ''text'' (specDefaults ''text'') ''m2r1bz7k-4fzyo82mv'' exampleTextProps)]"
    unfolding t appended_def by (simp add: elementsOf_update e g)
  moreover have "elementsOf (slides (addSticker Map.empty 0 exampleSlideRun) 0)
      = [JObj (specSticker ''m2r1bz7k-4fzyo82mv'' Map.empty)]"
    unfolding s appended_def by (simp add: elementsOf_update e g)
  ultimately show ?thesis
    by (simp add: specElement_def specDefaults_def specSticker_def exampleTextProps_def get_def Let_def)
qed

end
